theory Spec2Isabelle
  imports Main "HOL-Library.Word" "HOL-Library.Sublist" "HOL-Library.Monad_Syntax"
begin

section \<open>JavaScript values as the handlers see them\<close>

text \<open>
  A JavaScript string is a sequence of UTF-16 code units: \<open>length\<close> and
  \<open>substring\<close> count code units, so strings are lists of 16-bit words.
  \<open>ascii\<close> writes an ASCII literal; the Chinese text of the source is given
  by its code units.
\<close>

type_synonym jsstring = "16 word list"

definition ascii :: "string \<Rightarrow> jsstring" where
  "ascii s = map (\<lambda>c. of_char c) s"

text \<open>
  The values \<open>JSON.parse\<close> produces, and \<open>undefined\<close>. A JSON number is a
  double; this code observes a number only through its truthiness and through
  \<open>String()\<close>, so \<open>JNum nz s\<close> carries exactly these two observations: whether
  the number is non-zero, and its decimal rendering. \<open>JObj\<close> lists the own
  properties of an object; a property is read from its first entry.
\<close>

datatype val =
    JUndefined
  | JNull
  | JBool bool
  | JNum bool jsstring
  | JStr jsstring
  | JArr "val list"
  | JObj "(jsstring \<times> val) list"

text \<open>\<open>ToBoolean\<close>: what \<open>!x\<close>, \<open>x ? a : b\<close> and \<open>x || y\<close> test.\<close>

fun truthy :: "val \<Rightarrow> bool" where
  "truthy JUndefined = False"
| "truthy JNull = False"
| "truthy (JBool b) = b"
| "truthy (JNum nz s) = nz"
| "truthy (JStr s) = (s \<noteq> [])"
| "truthy (JArr vs) = True"
| "truthy (JObj kvs) = True"

text \<open>
  Member access \<open>x.k\<close> and the destructuring \<open>const { k } = x\<close>. On
  \<open>undefined\<close> and \<open>null\<close> both throw a TypeError, which is \<open>None\<close>
  here: every exception of the formatters is caught by one catch-all handler, so the
  model keeps only the fact that one was thrown. On an object the own property is
  read; none of the names the source reads is inherited from a prototype, so a
  missing property, and any property of a number, string, boolean or array, is
  \<open>undefined\<close>.
\<close>

fun get_prop :: "val \<Rightarrow> jsstring \<Rightarrow> val option" where
  "get_prop JUndefined k = None"
| "get_prop JNull k = None"
| "get_prop (JObj kvs) k = Some (case map_of kvs k of None \<Rightarrow> JUndefined | Some v \<Rightarrow> v)"
| "get_prop v k = Some JUndefined"

text \<open>
  \<open>ToString\<close>, as a template literal applies it to \<open>${x}\<close>. An array is
  joined with commas, \<open>undefined\<close> and \<open>null\<close> elements giving the empty
  string. A plain object gives \<open>[object Object]\<close>, unless it has an own property
  \<open>toString\<close>: a parsed value is never callable, and the conversion then throws
  a TypeError.
\<close>

fun to_string :: "val \<Rightarrow> jsstring option"
  and join_items :: "val list \<Rightarrow> jsstring option" where
  "to_string JUndefined = Some (ascii ''undefined'')"
| "to_string JNull = Some (ascii ''null'')"
| "to_string (JBool b) = Some (if b then ascii ''true'' else ascii ''false'')"
| "to_string (JNum nz s) = Some s"
| "to_string (JStr s) = Some s"
| "to_string (JArr vs) = join_items vs"
| "to_string (JObj kvs) =
     (if map_of kvs (ascii ''toString'') = None then Some (ascii ''[object Object]'') else None)"
| "join_items [] = Some []"
| "join_items (v # vs) = do {
     s \<leftarrow> (if v = JUndefined \<or> v = JNull then Some [] else to_string v);
     if vs = [] then Some s
     else do { r \<leftarrow> join_items vs; Some (s @ ascii '','' @ r) }
   }"

text \<open>
  \<open>String.prototype.replace\<close> with a string pattern: the first occurrence of
  the pattern, wherever it stands, is replaced; a string without the pattern is
  returned as it is.
\<close>

fun replace_first :: "jsstring \<Rightarrow> jsstring \<Rightarrow> jsstring \<Rightarrow> jsstring" where
  "replace_first pat rep [] = (if pat = [] then rep else [])"
| "replace_first pat rep (c # cs) =
     (if prefix pat (c # cs) then rep @ drop (length pat) (c # cs)
      else c # replace_first pat rep cs)"

text \<open>
  The method calls \<open>x.replace(pat, rep)\<close> and \<open>x.substring(a, b)\<close>, and the
  \<open>length\<close> read after it. Only a string has these methods: on any other value
  the call throws a TypeError.
\<close>

definition replace_method :: "val \<Rightarrow> jsstring \<Rightarrow> jsstring \<Rightarrow> jsstring option" where
  "replace_method v pat rep = (case v of JStr s \<Rightarrow> Some (replace_first pat rep s) | _ \<Rightarrow> None)"

definition substring :: "jsstring \<Rightarrow> nat \<Rightarrow> nat \<Rightarrow> jsstring" where
  "substring s a b = (let lo = min a b; hi = max a b in take (hi - lo) (drop lo s))"

definition substring_method :: "val \<Rightarrow> nat \<Rightarrow> nat \<Rightarrow> jsstring option" where
  "substring_method v a b = (case v of JStr s \<Rightarrow> Some (substring s a b) | _ \<Rightarrow> None)"

definition string_length :: "val \<Rightarrow> nat option" where
  "string_length v = (case v of JStr s \<Rightarrow> Some (length s) | _ \<Rightarrow> None)"

section \<open>The message formatters of githubWebhook.js\<close>

text \<open>
  Each formatter returns \<open>Some text\<close>, the empty text when a required field is
  missing, or \<open>None\<close> when it throws.
\<close>

definition formatPushMessage :: "val \<Rightarrow> jsstring option" where
  "formatPushMessage data = do {
     ref \<leftarrow> get_prop data (ascii ''ref'');
     repository \<leftarrow> get_prop data (ascii ''repository'');
     pushes \<leftarrow> get_prop data (ascii ''pushes'');
     sender \<leftarrow> get_prop data (ascii ''sender'');
     head_commit \<leftarrow> get_prop data (ascii ''head_commit'');
     if \<not> truthy repository \<or> \<not> truthy head_commit then Some []
     else do {
       repoName \<leftarrow> get_prop repository (ascii ''full_name'');
       branch \<leftarrow> replace_method ref (ascii ''refs/heads/'') [];
       senderLogin \<leftarrow> get_prop sender (ascii ''login'');
       commitMessage \<leftarrow> get_prop head_commit (ascii ''message'');
       commitUrl \<leftarrow> get_prop head_commit (ascii ''url'');
       html_url \<leftarrow> get_prop repository (ascii ''html_url'');
       u \<leftarrow> to_string html_url;
       r \<leftarrow> to_string repoName;
       s \<leftarrow> to_string senderLogin;
       excerpt \<leftarrow> substring_method commitMessage 0 100;
       len \<leftarrow> string_length commitMessage;
       Some (ascii ''<b>GitHub Push'' @ [0x901A, 0x77E5] @ ascii ''</b>'' @ [10, 10] @
             ascii ''<a href='' @ [0x22] @ u @ [0x22] @ ascii ''>'' @ r @ ascii ''</a>'' @ [10] @
             s @ ascii '' '' @ [0x63A8, 0x9001, 0x5230] @ ascii '' '' @ branch @ ascii '' '' @
               [0x5206, 0x652F] @ [10] @
             [0x63D0, 0x4EA4] @ ascii '': '' @ excerpt @
               (if 100 < len then ascii ''...'' else []))
     }
   }"

text \<open>
  The \<open>switch (action)\<close> of the pull-request formatter. \<open>switch\<close> compares with
  \<open>===\<close>, so only the string itself selects a case; the default case renders the
  action into the text with \<open>ToString\<close>.
\<close>

definition pull_request_action_text :: "val \<Rightarrow> val \<Rightarrow> jsstring option" where
  "pull_request_action_text action pull_request =
     (if action = JStr (ascii ''opened'') then Some [0x521B, 0x5EFA, 0x4E86, 0x65B0, 0x7684]
      else if action = JStr (ascii ''closed'') then do {
        merged \<leftarrow> get_prop pull_request (ascii ''merged'');
        Some (if truthy merged then [0x5408, 0x5E76, 0x4E86] else [0x5173, 0x95ED, 0x4E86])
      }
      else if action = JStr (ascii ''reopened'') then Some [0x91CD, 0x65B0, 0x6253, 0x5F00, 0x4E86]
      else if action = JStr (ascii ''edited'') then Some [0x7F16, 0x8F91, 0x4E86]
      else do {
        a \<leftarrow> to_string action;
        Some ([0x66F4, 0x65B0, 0x4E86] @ ascii ''('' @ a @ ascii '')'')
      })"

definition formatPullRequestMessage :: "val \<Rightarrow> jsstring option" where
  "formatPullRequestMessage data = do {
     action \<leftarrow> get_prop data (ascii ''action'');
     pull_request \<leftarrow> get_prop data (ascii ''pull_request'');
     repository \<leftarrow> get_prop data (ascii ''repository'');
     sender \<leftarrow> get_prop data (ascii ''sender'');
     if \<not> truthy pull_request \<or> \<not> truthy repository then Some []
     else do {
       title \<leftarrow> get_prop pull_request (ascii ''title'');
       number \<leftarrow> get_prop pull_request (ascii ''number'');
       htmlUrl \<leftarrow> get_prop pull_request (ascii ''html_url'');
       repoName \<leftarrow> get_prop repository (ascii ''full_name'');
       senderLogin \<leftarrow> get_prop sender (ascii ''login'');
       actionText \<leftarrow> pull_request_action_text action pull_request;
       h \<leftarrow> to_string htmlUrl;
       r \<leftarrow> to_string repoName;
       n \<leftarrow> to_string number;
       s \<leftarrow> to_string senderLogin;
       t \<leftarrow> to_string title;
       Some (ascii ''<b>GitHub PR'' @ [0x901A, 0x77E5] @ ascii ''</b>'' @ [10, 10] @
             ascii ''<a href='' @ [0x22] @ h @ [0x22] @ ascii ''>'' @ r @ ascii '' #'' @ n @
               ascii ''</a>'' @ [10] @
             s @ ascii '' '' @ actionText @ ascii '' Pull Request: '' @ t)
     }
   }"

definition issues_action_text :: "val \<Rightarrow> jsstring option" where
  "issues_action_text action =
     (if action = JStr (ascii ''opened'') then Some [0x521B, 0x5EFA, 0x4E86, 0x65B0, 0x7684]
      else if action = JStr (ascii ''closed'') then Some [0x5173, 0x95ED, 0x4E86]
      else if action = JStr (ascii ''reopened'') then Some [0x91CD, 0x65B0, 0x6253, 0x5F00, 0x4E86]
      else if action = JStr (ascii ''edited'') then Some [0x7F16, 0x8F91, 0x4E86]
      else do {
        a \<leftarrow> to_string action;
        Some ([0x66F4, 0x65B0, 0x4E86] @ ascii ''('' @ a @ ascii '')'')
      })"

definition formatIssuesMessage :: "val \<Rightarrow> jsstring option" where
  "formatIssuesMessage data = do {
     action \<leftarrow> get_prop data (ascii ''action'');
     issue \<leftarrow> get_prop data (ascii ''issue'');
     repository \<leftarrow> get_prop data (ascii ''repository'');
     sender \<leftarrow> get_prop data (ascii ''sender'');
     if \<not> truthy issue \<or> \<not> truthy repository then Some []
     else do {
       title \<leftarrow> get_prop issue (ascii ''title'');
       number \<leftarrow> get_prop issue (ascii ''number'');
       htmlUrl \<leftarrow> get_prop issue (ascii ''html_url'');
       repoName \<leftarrow> get_prop repository (ascii ''full_name'');
       senderLogin \<leftarrow> get_prop sender (ascii ''login'');
       actionText \<leftarrow> issues_action_text action;
       h \<leftarrow> to_string htmlUrl;
       r \<leftarrow> to_string repoName;
       n \<leftarrow> to_string number;
       s \<leftarrow> to_string senderLogin;
       t \<leftarrow> to_string title;
       Some (ascii ''<b>GitHub Issue'' @ [0x901A, 0x77E5] @ ascii ''</b>'' @ [10, 10] @
             ascii ''<a href='' @ [0x22] @ h @ [0x22] @ ascii ''>'' @ r @ ascii '' #'' @ n @
               ascii ''</a>'' @ [10] @
             s @ ascii '' '' @ actionText @ ascii '' Issue: '' @ t)
     }
   }"

definition release_action_text :: "val \<Rightarrow> jsstring option" where
  "release_action_text action =
     (if action = JStr (ascii ''published'') then Some [0x53D1, 0x5E03, 0x4E86, 0x65B0, 0x7684]
      else do {
        a \<leftarrow> to_string action;
        Some ([0x66F4, 0x65B0, 0x4E86] @ ascii ''('' @ a @ ascii '')'')
      })"

definition formatReleaseMessage :: "val \<Rightarrow> jsstring option" where
  "formatReleaseMessage data = do {
     action \<leftarrow> get_prop data (ascii ''action'');
     release \<leftarrow> get_prop data (ascii ''release'');
     repository \<leftarrow> get_prop data (ascii ''repository'');
     sender \<leftarrow> get_prop data (ascii ''sender'');
     if \<not> truthy release \<or> \<not> truthy repository then Some []
     else do {
       tagName \<leftarrow> get_prop release (ascii ''tag_name'');
       name0 \<leftarrow> get_prop release (ascii ''name'');
       name \<leftarrow> Some (if truthy name0 then name0 else tagName);
       htmlUrl \<leftarrow> get_prop release (ascii ''html_url'');
       repoName \<leftarrow> get_prop repository (ascii ''full_name'');
       senderLogin \<leftarrow> get_prop sender (ascii ''login'');
       actionText \<leftarrow> release_action_text action;
       h \<leftarrow> to_string htmlUrl;
       r \<leftarrow> to_string repoName;
       s \<leftarrow> to_string senderLogin;
       t \<leftarrow> to_string name;
       Some (ascii ''<b>GitHub Release'' @ [0x901A, 0x77E5] @ ascii ''</b>'' @ [10, 10] @
             ascii ''<a href='' @ [0x22] @ h @ [0x22] @ ascii ''>'' @ r @ ascii ''</a>'' @ [10] @
             s @ ascii '' '' @ actionText @ ascii '' Release: '' @ t)
     }
   }"

section \<open>Requests, responses and collaborators\<close>

text \<open>
  What a handler reads of the request: the method, the two headers
  (\<open>headers.get\<close> gives \<open>null\<close>, here \<open>None\<close>, for an absent header), the
  raw body, and the \<open>token\<close> query parameter (\<open>searchParams.get\<close>, again
  \<open>null\<close> when absent).
\<close>

record request =
  "method" :: jsstring
  event_header :: "jsstring option"
  signature_header :: "jsstring option"
  body :: jsstring
  token_param :: "jsstring option"

text \<open>The environment variables read; an unset variable is \<open>undefined\<close>, here \<open>None\<close>.\<close>

record env =
  github_webhook_secret :: "jsstring option"
  default_chat_id :: "jsstring option"
  token :: "jsstring option"

text \<open>
  \<open>ToBoolean\<close> of a string that may be \<open>null\<close> or \<open>undefined\<close>: the empty
  string is as falsy as the absent one.
\<close>

definition nonempty :: "jsstring option \<Rightarrow> bool" where
  "nonempty x = (case x of None \<Rightarrow> False | Some s \<Rightarrow> s \<noteq> [])"

text \<open>
  The body of a response is plain text, or the \<open>JSON.stringify\<close> of
  \<open>{code, message}\<close>, kept as its two fields. \<open>Json_caught c p\<close> is the body
  whose message is \<open>p\<close> followed by the message of a caught exception, which the
  model does not carry.
\<close>

datatype body = Text jsstring | Json nat val | Json_caught nat jsstring

record response =
  status :: nat
  content :: body

definition json_response :: "nat \<Rightarrow> nat \<Rightarrow> jsstring \<Rightarrow> response" where
  "json_response st c m = \<lparr>status = st, content = Json c (JStr m)\<rparr>"

text \<open>The argument of \<open>bot.sendMessage\<close>.\<close>

record send_args =
  "text" :: jsstring
  chat_id :: val
  parse_mode :: "jsstring option"

text \<open>
  The object \<open>new Bot(env)\<close>: bot.js is not among the sources, so its three
  methods are parameters. Each may throw (\<open>None\<close>). \<open>sendMessage\<close> resolves to
  the reply of the chat platform, an object with the fields \<open>ok\<close> and
  \<open>description\<close>.
\<close>

record bot =
  encryption :: "val \<Rightarrow> jsstring option"
  decryption :: "jsstring \<Rightarrow> val option"
  sendMessage :: "send_args \<Rightarrow> val option"

text \<open>
  What the runtime provides: \<open>JSON.parse\<close> (\<open>None\<close> for its SyntaxError; it
  also stands for \<open>request.json()\<close>, which parses the same body text), the
  hexadecimal HMAC-SHA-256 digest of a text under a key, and whether the identifier
  \<open>require\<close> is bound. githubWebhook.js is an ES module (it has \<open>import\<close> and
  \<open>export\<close>), and in an ES module \<open>require\<close> is not defined: the call
  \<open>require('crypto')\<close> of line 34 then throws a ReferenceError. It is bound only
  where the module has been rebuilt as CommonJS.
\<close>

record runtime =
  json_parse :: "jsstring \<Rightarrow> val option"
  hmac_sha256_hex :: "jsstring \<Rightarrow> jsstring \<Rightarrow> jsstring"
  require_defined :: bool

section \<open>The webhook endpoint: onRequest of githubWebhook.js\<close>

text \<open>
  A block of the handler either returns a response, throws, or goes on with a value.
\<close>

datatype 'a step = Respond response | Throw | Next 'a

text \<open>
  Lines 31 to 49: the signature check and the parsing of the body. In the checked
  branch the body text is read, and then \<open>require('crypto')\<close> throws where
  \<open>require\<close> is not bound.
\<close>

definition read_data :: "runtime \<Rightarrow> env \<Rightarrow> request \<Rightarrow> val step" where
  "read_data rt e request =
     (if nonempty (github_webhook_secret e) \<and> nonempty (signature_header request) then
        (if \<not> require_defined rt then Throw
         else
           (let digest = ascii ''sha256='' @
                  hmac_sha256_hex rt (the (github_webhook_secret e)) (body request)
            in if the (signature_header request) \<noteq> digest
               then Respond (json_response 401 401 (ascii ''Invalid signature''))
               else (case json_parse rt (body request) of None \<Rightarrow> Throw | Some data \<Rightarrow> Next data)))
      else (case json_parse rt (body request) of None \<Rightarrow> Throw | Some data \<Rightarrow> Next data))"

text \<open>
  Lines 51 to 70: the chat target. An exception of \<open>bot.decryption\<close> is caught
  and leaves \<open>chatId\<close> at \<open>null\<close>.
\<close>

definition resolve_chat_id :: "bot \<Rightarrow> env \<Rightarrow> request \<Rightarrow> val" where
  "resolve_chat_id b e request =
     (let chatId = (if nonempty (default_chat_id e) then JStr (the (default_chat_id e)) else JNull)
      in if \<not> truthy chatId then
           (if nonempty (token_param request) then
              (case decryption b (the (token_param request)) of
                 None \<Rightarrow> chatId
               | Some c \<Rightarrow> c)
            else chatId)
         else chatId)"

text \<open>Lines 79 to 97: the \<open>switch (eventType)\<close>.\<close>

definition format_event :: "jsstring \<Rightarrow> val \<Rightarrow> jsstring option" where
  "format_event eventType data =
     (if eventType = ascii ''pull_request'' then formatPullRequestMessage data
      else if eventType = ascii ''push'' then formatPushMessage data
      else if eventType = ascii ''issues'' then formatIssuesMessage data
      else if eventType = ascii ''release'' then formatReleaseMessage data
      else Some ([0x6536, 0x5230] @ ascii ''GitHub'' @ [0x4E8B, 0x4EF6] @ ascii '': '' @ eventType))"

text \<open>
  Lines 99 to 121. The result is the response, or \<open>None\<close> when an exception
  escapes, with the calls of \<open>bot.sendMessage\<close> that were made.
\<close>

definition deliver :: "bot \<Rightarrow> jsstring \<Rightarrow> val \<Rightarrow> response option \<times> send_args list" where
  "deliver b message chatId =
     (if message \<noteq> [] then
        (let args = \<lparr>text = message, chat_id = chatId, parse_mode = Some (ascii ''HTML'')\<rparr>
         in (do {
               ret \<leftarrow> sendMessage b args;
               ok \<leftarrow> get_prop ret (ascii ''ok'');
               if truthy ok
               then Some \<lparr>status = 200,
                          content = Json 200 (JStr (ascii ''Notification sent successfully''))\<rparr>
               else do {
                 description \<leftarrow> get_prop ret (ascii ''description'');
                 Some \<lparr>status = 422, content = Json 422 description\<rparr>
               }
             }, [args]))
      else (Some (json_response 200 200 (ascii ''No message to send'')), []))"

text \<open>The body of the \<open>try\<close> block, lines 21 to 121.\<close>

definition try_block :: "runtime \<Rightarrow> bot \<Rightarrow> env \<Rightarrow> request \<Rightarrow> response option \<times> send_args list" where
  "try_block rt b e request =
     (if \<not> nonempty (event_header request)
      then (Some (json_response 400 400 (ascii ''Missing X-GitHub-Event header'')), [])
      else (case read_data rt e request of
              Respond r \<Rightarrow> (Some r, [])
            | Throw \<Rightarrow> (None, [])
            | Next data \<Rightarrow>
                (let chatId = resolve_chat_id b e request
                 in if \<not> truthy chatId
                    then (Some (json_response 422 422 (ascii ''No valid chat_id provided'')), [])
                    else (case format_event (the (event_header request)) data of
                            None \<Rightarrow> (None, [])
                          | Some message \<Rightarrow> deliver b message chatId))))"

text \<open>
  The handler: the response and the calls of \<open>bot.sendMessage\<close> it made. The
  catch-all of lines 122 to 128 turns any exception into the 500 response.
\<close>

definition onRequest :: "runtime \<Rightarrow> bot \<Rightarrow> env \<Rightarrow> request \<Rightarrow> response \<times> send_args list" where
  "onRequest rt b e request =
     (if method request \<noteq> ascii ''POST''
      then (json_response 405 405 (ascii ''Please use POST method''), [])
      else (case try_block rt b e request of
              (Some r, sent) \<Rightarrow> (r, sent)
            | (None, sent) \<Rightarrow> (json_response 500 500 (ascii ''Server error''), sent)))"

section \<open>The bot-update endpoint: onRequest of the chat-platform update handler\<close>

text \<open>Optional chaining \<open>x?.k\<close>: \<open>undefined\<close> when \<open>x\<close> is \<open>null\<close> or \<open>undefined\<close>.\<close>

definition nullish :: "val \<Rightarrow> bool" where
  "nullish v = (v = JUndefined \<or> v = JNull)"

definition optional_prop :: "val \<Rightarrow> jsstring \<Rightarrow> val option" where
  "optional_prop v k = (if nullish v then Some JUndefined else get_prop v k)"

text \<open>Lines 112 to 115: the argument of the \<open>sendMessage\<close> call that carries the token.\<close>

definition token_message :: "jsstring \<Rightarrow> val \<Rightarrow> send_args" where
  "token_message encryptedToken cid =
     \<lparr>text = [0x60A8, 0x7684, 0x4E13, 0x5C5E] @ ascii '' Token:'' @ [10, 10] @
              encryptedToken @ [10, 10] @
              [0x8BF7, 0x4FDD, 0x5B58, 0x6B64] @ ascii '' Token'' @
              [0xFF0C, 0x7528, 0x4E8E, 0x53D1, 0x9001, 0x6D88, 0x606F, 0x901A, 0x77E5, 0x3002],
      chat_id = cid, parse_mode = None\<rparr>"

text \<open>
  Lines 107 to 133, the inner \<open>try\<close> of the \<open>/token\<close> command. The result is
  \<open>Some (Some r)\<close> when the block returns the response \<open>r\<close>, \<open>Some None\<close>
  when it falls through to the final response, and \<open>None\<close> when it throws, which
  the inner \<open>catch\<close> turns into a response. The \<open>console.log\<close> of line 110
  renders the chat identifier, which can throw.
\<close>

definition token_command :: "bot \<Rightarrow> val \<Rightarrow> response option option \<times> send_args list" where
  "token_command b cid =
     (case encryption b cid of
        None \<Rightarrow> (None, [])
      | Some encryptedToken \<Rightarrow>
          (case to_string cid of
             None \<Rightarrow> (None, [])
           | Some c \<Rightarrow>
               (do {
                  ret \<leftarrow> sendMessage b (token_message encryptedToken cid);
                  ok \<leftarrow> get_prop ret (ascii ''ok'');
                  if \<not> truthy ok then do {
                    description \<leftarrow> get_prop ret (ascii ''description'');
                    d \<leftarrow> to_string description;
                    Some (Some \<lparr>status = 500,
                                content = Json 500 (JStr (ascii ''Failed to send message: '' @ d))\<rparr>)
                  }
                  else Some None
                }, [token_message encryptedToken cid])))"

text \<open>
  Lines 85 to 87: the body is parsed and the text and the chat identifier of the update
  are read; \<open>data.message\<close> itself throws when the body is \<open>null\<close>.
\<close>

definition read_update :: "runtime \<Rightarrow> request \<Rightarrow> (val \<times> val) option" where
  "read_update rt request = do {
     data \<leftarrow> json_parse rt (body request);
     m \<leftarrow> get_prop data (ascii ''message'');
     t \<leftarrow> optional_prop m (ascii ''text'');
     chat \<leftarrow> optional_prop m (ascii ''chat'');
     cid \<leftarrow> optional_prop chat (ascii ''id'');
     Some (if nullish t then JStr [] else t, cid)
   }"

text \<open>Lines 84 to 140: the outer \<open>try\<close> block, with the same three outcomes.\<close>

definition update_block :: "runtime \<Rightarrow> bot \<Rightarrow> env \<Rightarrow> request \<Rightarrow> response option option \<times> send_args list" where
  "update_block rt b e request =
     (case read_update rt request of
        None \<Rightarrow> (None, [])
      | Some (message, cid) \<Rightarrow>
          if \<not> truthy cid
          then (Some (Some (json_response 400 400 (ascii ''No chat_id found''))), [])
          else if \<not> nonempty (token e)
          then (Some (Some (json_response 500 500 (ascii ''Bot token not configured''))), [])
          else if message = JStr (ascii ''/token'')
          then (case token_command b cid of
                  (None, sent) \<Rightarrow>
                    (Some (Some \<lparr>status = 500, content = Json_caught 500 (ascii ''Error: '')\<rparr>), sent)
                | (Some r, sent) \<Rightarrow> (Some r, sent))
          else (Some None, []))"

definition webhook_onRequest :: "runtime \<Rightarrow> bot \<Rightarrow> env \<Rightarrow> request \<Rightarrow> response \<times> send_args list" where
  "webhook_onRequest rt b e request =
     (if method request \<noteq> ascii ''POST''
      then (\<lparr>status = 405, content = Text (ascii ''Please use POST method'')\<rparr>, [])
      else (case update_block rt b e request of
              (None, sent) \<Rightarrow>
                (\<lparr>status = 500, content = Json_caught 500 (ascii ''Server error: '')\<rparr>, sent)
            | (Some (Some r), sent) \<Rightarrow> (r, sent)
            | (Some None, sent) \<Rightarrow> (json_response 200 200 (ascii ''success''), sent)))"

section \<open>The token codec\<close>

text \<open>
  Modelled from the spec: the token codec of bot.js (\<open>Bot.encryption\<close> and
  \<open>Bot.decryption\<close>), which is not among the sources. Section 4.1 asks for a keyed
  authenticated encoding of an integer chat identifier, deterministic for a chat
  identifier and a key, whose decoding rejects with an \<open>AuthError\<close> every token that
  fails the integrity check. The token is the decimal chat identifier, a dot, and the
  keyed digest of the decimal text; the digest function is a parameter.
\<close>

datatype auth_error = AuthError

text \<open>Modelled from the spec: the decimal text of a chat identifier, and its reading.\<close>

fun decimal :: "nat \<Rightarrow> jsstring" where
  "decimal n = (if n < 10 then [of_nat (48 + n)] else decimal (n div 10) @ [of_nat (48 + n mod 10)])"

definition show_int :: "int \<Rightarrow> jsstring" where
  "show_int i = (if i < 0 then 0x2D # decimal (nat (- i)) else decimal (nat i))"

definition undecimal :: "jsstring \<Rightarrow> nat" where
  "undecimal ds = foldl (\<lambda>a d. 10 * a + (unat d - 48)) 0 ds"

definition read_int :: "jsstring \<Rightarrow> int" where
  "read_int p = (if p \<noteq> [] \<and> hd p = 0x2D then - int (undecimal (tl p)) else int (undecimal p))"

text \<open>
  Modelled from the spec: only the canonical decimal text of an integer is read as that
  integer, so that a chat identifier has one payload.
\<close>

definition parse_int :: "jsstring \<Rightarrow> int option" where
  "parse_int p = (let c = read_int p in if show_int c = p then Some c else None)"

text \<open>Modelled from the spec: \<open>encode(chatId, key)\<close> of section 4.1.\<close>

definition encode :: "('k \<Rightarrow> jsstring \<Rightarrow> jsstring) \<Rightarrow> 'k \<Rightarrow> int \<Rightarrow> jsstring" where
  "encode mac key chatId = show_int chatId @ [0x2E] @ mac key (show_int chatId)"

text \<open>
  Modelled from the spec: \<open>decode(token, key)\<close> of section 4.1. The token is split
  at its first dot; the payload must be a canonical integer and the rest must be its
  digest under the key.
\<close>

definition decode :: "('k \<Rightarrow> jsstring \<Rightarrow> jsstring) \<Rightarrow> 'k \<Rightarrow> jsstring \<Rightarrow> auth_error + int" where
  "decode mac key t =
     (let payload = takeWhile (\<lambda>c. c \<noteq> 0x2E) t; rest = dropWhile (\<lambda>c. c \<noteq> 0x2E) t
      in case rest of
           [] \<Rightarrow> Inl AuthError
         | dot # tag \<Rightarrow>
             (case parse_int payload of
                None \<Rightarrow> Inl AuthError
              | Some chatId \<Rightarrow> if tag = mac key payload then Inr chatId else Inl AuthError))"

text \<open>A digest function for the examples: the reversed key followed by the payload.\<close>

definition toy_mac :: "jsstring \<Rightarrow> jsstring \<Rightarrow> jsstring" where
  "toy_mac key payload = rev key @ payload"

section \<open>Example payloads\<close>

text \<open>The pull-request payload of the specification's scenario, and its message.\<close>

definition pull_request_example :: val where
  "pull_request_example = JObj [
     (ascii ''action'', JStr (ascii ''closed'')),
     (ascii ''pull_request'', JObj [(ascii ''merged'', JBool True), (ascii ''title'', JStr (ascii ''T'')),
        (ascii ''number'', JNum True (ascii ''7'')), (ascii ''html_url'', JStr (ascii ''h''))]),
     (ascii ''repository'', JObj [(ascii ''full_name'', JStr (ascii ''a/b''))]),
     (ascii ''sender'', JObj [(ascii ''login'', JStr (ascii ''bob''))])]"

definition pull_request_example_text :: jsstring where
  "pull_request_example_text =
     ascii ''<b>GitHub PR'' @ [0x901A, 0x77E5] @ ascii ''</b>'' @ [10, 10] @
     ascii ''<a href='' @ [0x22] @ ascii ''h'' @ [0x22] @ ascii ''>a/b #7</a>'' @ [10] @
     ascii ''bob '' @ [0x5408, 0x5E76, 0x4E86] @ ascii '' Pull Request: T''"

text \<open>
  A pull-request payload with a given action and \<open>merged\<close> flag, and its message for
  a given verb.
\<close>

definition pull_request_payload :: "val \<Rightarrow> val \<Rightarrow> val" where
  "pull_request_payload action merged = JObj [
     (ascii ''action'', action),
     (ascii ''pull_request'', JObj [(ascii ''merged'', merged), (ascii ''title'', JStr (ascii ''T'')),
        (ascii ''number'', JNum True (ascii ''7'')), (ascii ''html_url'', JStr (ascii ''h''))]),
     (ascii ''repository'', JObj [(ascii ''full_name'', JStr (ascii ''a/b''))]),
     (ascii ''sender'', JObj [(ascii ''login'', JStr (ascii ''bob''))])]"

definition pull_request_payload_text :: "jsstring \<Rightarrow> jsstring" where
  "pull_request_payload_text verb =
     ascii ''<b>GitHub PR'' @ [0x901A, 0x77E5] @ ascii ''</b>'' @ [10, 10] @
     ascii ''<a href='' @ [0x22] @ ascii ''h'' @ [0x22] @ ascii ''>a/b #7</a>'' @ [10] @
     ascii ''bob '' @ verb @ ascii '' Pull Request: T''"

text \<open>A push payload with the given ref and commit message, and its message for a given branch text and excerpt.\<close>

definition push_example :: "jsstring \<Rightarrow> jsstring \<Rightarrow> val" where
  "push_example ref m = JObj [
     (ascii ''ref'', JStr ref),
     (ascii ''repository'', JObj [(ascii ''full_name'', JStr (ascii ''a/b'')),
        (ascii ''html_url'', JStr (ascii ''u''))]),
     (ascii ''sender'', JObj [(ascii ''login'', JStr (ascii ''alice''))]),
     (ascii ''head_commit'', JObj [(ascii ''message'', JStr m), (ascii ''url'', JStr (ascii ''c''))])]"

definition push_example_text :: "jsstring \<Rightarrow> jsstring \<Rightarrow> jsstring" where
  "push_example_text branch excerpt =
     ascii ''<b>GitHub Push'' @ [0x901A, 0x77E5] @ ascii ''</b>'' @ [10, 10] @
     ascii ''<a href='' @ [0x22] @ ascii ''u'' @ [0x22] @ ascii ''>a/b</a>'' @ [10] @
     ascii ''alice '' @ [0x63A8, 0x9001, 0x5230] @ ascii '' '' @ branch @ ascii '' '' @
       [0x5206, 0x652F] @ [10] @
     [0x63D0, 0x4EA4] @ ascii '': '' @ excerpt"

text \<open>
  Predicates on a payload, for the statements below: the payload is not \<open>null\<close>
  and its field is falsy (in particular missing), truthy, or \<open>undefined\<close> or
  \<open>null\<close> (in particular missing).
\<close>

definition falsy_field :: "val \<Rightarrow> jsstring \<Rightarrow> bool" where
  "falsy_field data k = (case get_prop data k of None \<Rightarrow> False | Some v \<Rightarrow> \<not> truthy v)"

definition truthy_field :: "val \<Rightarrow> jsstring \<Rightarrow> bool" where
  "truthy_field data k = (case get_prop data k of None \<Rightarrow> False | Some v \<Rightarrow> truthy v)"

definition nullish_field :: "val \<Rightarrow> jsstring \<Rightarrow> bool" where
  "nullish_field data k = (case get_prop data k of None \<Rightarrow> False | Some v \<Rightarrow> nullish v)"

text \<open>
  Collaborators, requests and environments for the examples: the runtime of the ES
  module as it is written (\<open>require\<close> not bound), whose parser yields a fixed value
  and whose digest is fixed, a bot whose methods answer with fixed
  results, a POST request with a given event type, signature and token, and an
  environment with a given secret and default chat.
\<close>

definition fixed_runtime :: "val option \<Rightarrow> jsstring \<Rightarrow> runtime" where
  "fixed_runtime parsed digest =
     \<lparr>json_parse = (\<lambda>t. parsed), hmac_sha256_hex = (\<lambda>k t. digest), require_defined = False\<rparr>"

definition fixed_bot :: "jsstring option \<Rightarrow> val option \<Rightarrow> val option \<Rightarrow> bot" where
  "fixed_bot enc dec reply = \<lparr>encryption = (\<lambda>c. enc), decryption = (\<lambda>t. dec), sendMessage = (\<lambda>a. reply)\<rparr>"

definition post_request :: "jsstring \<Rightarrow> jsstring option \<Rightarrow> jsstring option \<Rightarrow> request" where
  "post_request ev sig tok = \<lparr>method = ascii ''POST'', event_header = Some ev, signature_header = sig,
     body = ascii ''{}'', token_param = tok\<rparr>"

definition chat_env :: "jsstring option \<Rightarrow> jsstring option \<Rightarrow> env" where
  "chat_env secret chat = \<lparr>github_webhook_secret = secret, default_chat_id = chat, token = Some (ascii ''123:abc'')\<rparr>"

text \<open>
  The payload of the specification's scenario without a \<open>pull_request\<close> field, and
  a pull-request payload without a \<open>sender\<close>.
\<close>

definition no_pull_request_example :: val where
  "no_pull_request_example = JObj [(ascii ''repository'', JObj [(ascii ''full_name'', JStr (ascii ''a/b''))])]"

definition no_sender_example :: val where
  "no_sender_example = JObj [
     (ascii ''action'', JStr (ascii ''opened'')),
     (ascii ''pull_request'', JObj [(ascii ''title'', JStr (ascii ''T'')),
        (ascii ''number'', JNum True (ascii ''7'')), (ascii ''html_url'', JStr (ascii ''h''))]),
     (ascii ''repository'', JObj [(ascii ''full_name'', JStr (ascii ''a/b''))])]"

text \<open>
  An update of the chat platform with the \<open>/token\<close> command from chat 42, and the
  reply of the platform to a send, with the given \<open>ok\<close>.
\<close>

definition token_update_example :: val where
  "token_update_example = JObj [(ascii ''message'', JObj [
     (ascii ''text'', JStr (ascii ''/token'')),
     (ascii ''chat'', JObj [(ascii ''id'', JNum True (ascii ''42''))])])]"

definition send_reply :: "bool \<Rightarrow> val" where
  "send_reply ok = JObj [(ascii ''ok'', JBool ok), (ascii ''description'', JStr (ascii ''Forbidden''))]"

section \<open>Properties of the formatters\<close>

lemma formatPushMessage_Some:
  assumes "formatPushMessage data = Some msg" and "msg \<noteq> []"
  obtains ref head_commit m u r s where
    "get_prop data (ascii ''ref'') = Some (JStr ref)"
    "get_prop data (ascii ''head_commit'') = Some head_commit"
    "get_prop head_commit (ascii ''message'') = Some (JStr m)"
    "msg = ascii ''<b>GitHub Push'' @ [0x901A, 0x77E5] @ ascii ''</b>'' @ [10, 10] @
           ascii ''<a href='' @ [0x22] @ u @ [0x22] @ ascii ''>'' @ r @ ascii ''</a>'' @ [10] @
           s @ ascii '' '' @ [0x63A8, 0x9001, 0x5230] @ ascii '' '' @
             replace_first (ascii ''refs/heads/'') [] ref @ ascii '' '' @ [0x5206, 0x652F] @ [10] @
           [0x63D0, 0x4EA4] @ ascii '': '' @ take 100 m @
             (if 100 < length m then ascii ''...'' else [])"
proof -
  from assms obtain ref repository pushes sender head_commit repoName senderLogin
      commitUrl html_url m u r s where
    f: "get_prop data (ascii ''ref'') = Some (JStr ref)"
       "get_prop data (ascii ''repository'') = Some repository"
       "get_prop data (ascii ''pushes'') = Some pushes"
       "get_prop data (ascii ''sender'') = Some sender"
       "get_prop data (ascii ''head_commit'') = Some head_commit"
       "truthy repository" "truthy head_commit"
       "get_prop repository (ascii ''full_name'') = Some repoName"
       "get_prop sender (ascii ''login'') = Some senderLogin"
       "get_prop head_commit (ascii ''message'') = Some (JStr m)"
       "get_prop head_commit (ascii ''url'') = Some commitUrl"
       "get_prop repository (ascii ''html_url'') = Some html_url"
       "to_string html_url = Some u" "to_string repoName = Some r"
       "to_string senderLogin = Some s"
    unfolding formatPushMessage_def substring_method_def string_length_def replace_method_def
    by (auto simp: bind_eq_Some_conv ascii_def split: if_splits val.splits)
  let ?M = "ascii ''<b>GitHub Push'' @ [0x901A, 0x77E5] @ ascii ''</b>'' @ [10, 10] @
           ascii ''<a href='' @ [0x22] @ u @ [0x22] @ ascii ''>'' @ r @ ascii ''</a>'' @ [10] @
           s @ ascii '' '' @ [0x63A8, 0x9001, 0x5230] @ ascii '' '' @
             replace_first (ascii ''refs/heads/'') [] ref @ ascii '' '' @ [0x5206, 0x652F] @ [10] @
           [0x63D0, 0x4EA4] @ ascii '': '' @ take 100 m @
             (if 100 < length m then ascii ''...'' else [])"
  have "formatPushMessage data = Some ?M"
    unfolding formatPushMessage_def substring_method_def string_length_def replace_method_def
      substring_def
    using f by simp
  with assms(1) have "msg = ?M" by simp
  with f(1,5,10) show thesis by (rule that)
qed

lemma formatPushMessage_example:
  "formatPushMessage (push_example ref m) =
     Some (push_example_text (replace_first (ascii ''refs/heads/'') [] ref)
             (take 100 m @ (if 100 < length m then ascii ''...'' else [])))"
  by (simp add: formatPushMessage_def push_example_def push_example_text_def ascii_def
      replace_method_def substring_method_def substring_def string_length_def)

lemma formatPullRequestMessage_Some:
  assumes "formatPullRequestMessage data = Some msg" and "msg \<noteq> []"
  obtains action pull_request sender senderLogin title merged verb h r n s t where
    "get_prop data (ascii ''action'') = Some action"
    "get_prop data (ascii ''pull_request'') = Some pull_request"
    "get_prop data (ascii ''sender'') = Some sender"
    "get_prop sender (ascii ''login'') = Some senderLogin"
    "get_prop pull_request (ascii ''title'') = Some title"
    "get_prop pull_request (ascii ''merged'') = Some merged"
    "to_string senderLogin = Some s"
    "to_string title = Some t"
    "pull_request_action_text action pull_request = Some verb"
    "msg = ascii ''<b>GitHub PR'' @ [0x901A, 0x77E5] @ ascii ''</b>'' @ [10, 10] @
           ascii ''<a href='' @ [0x22] @ h @ [0x22] @ ascii ''>'' @ r @ ascii '' #'' @ n @
             ascii ''</a>'' @ [10] @
           s @ ascii '' '' @ verb @ ascii '' Pull Request: '' @ t"
proof -
  from assms obtain action pull_request repository sender title number htmlUrl repoName
      senderLogin verb h r n s t where
    f: "get_prop data (ascii ''action'') = Some action"
       "get_prop data (ascii ''pull_request'') = Some pull_request"
       "get_prop data (ascii ''repository'') = Some repository"
       "get_prop data (ascii ''sender'') = Some sender"
       "truthy pull_request" "truthy repository"
       "get_prop pull_request (ascii ''title'') = Some title"
       "get_prop pull_request (ascii ''number'') = Some number"
       "get_prop pull_request (ascii ''html_url'') = Some htmlUrl"
       "get_prop repository (ascii ''full_name'') = Some repoName"
       "get_prop sender (ascii ''login'') = Some senderLogin"
       "pull_request_action_text action pull_request = Some verb"
       "to_string htmlUrl = Some h" "to_string repoName = Some r" "to_string number = Some n"
       "to_string senderLogin = Some s" "to_string title = Some t"
    unfolding formatPullRequestMessage_def
    by (auto simp: bind_eq_Some_conv ascii_def split: if_splits)
  let ?M = "ascii ''<b>GitHub PR'' @ [0x901A, 0x77E5] @ ascii ''</b>'' @ [10, 10] @
           ascii ''<a href='' @ [0x22] @ h @ [0x22] @ ascii ''>'' @ r @ ascii '' #'' @ n @
             ascii ''</a>'' @ [10] @
           s @ ascii '' '' @ verb @ ascii '' Pull Request: '' @ t"
  have "formatPullRequestMessage data = Some ?M"
    unfolding formatPullRequestMessage_def using f by simp
  with assms(1) have m: "msg = ?M" by simp
  from f(5) obtain merged where g: "get_prop pull_request (ascii ''merged'') = Some merged"
    by (cases pull_request) auto
  from f(1,2,4,11,7) g f(16,17,12) m show thesis by (rule that)
qed

lemma pull_request_action_text_cases:
  assumes "pull_request_action_text action pull_request = Some verb"
    and "get_prop pull_request (ascii ''merged'') = Some merged"
  shows "(action = JStr (ascii ''opened'') \<longrightarrow> verb = [0x521B, 0x5EFA, 0x4E86, 0x65B0, 0x7684]) \<and>
     (action = JStr (ascii ''closed'') \<longrightarrow>
        verb = (if truthy merged then [0x5408, 0x5E76, 0x4E86] else [0x5173, 0x95ED, 0x4E86])) \<and>
     (action = JStr (ascii ''reopened'') \<longrightarrow> verb = [0x91CD, 0x65B0, 0x6253, 0x5F00, 0x4E86]) \<and>
     (action = JStr (ascii ''edited'') \<longrightarrow> verb = [0x7F16, 0x8F91, 0x4E86]) \<and>
     (action \<notin> {JStr (ascii ''opened''), JStr (ascii ''closed''), JStr (ascii ''reopened''),
                 JStr (ascii ''edited'')} \<longrightarrow>
        (\<exists>a. to_string action = Some a \<and> (\<forall>x. action = JStr x \<longrightarrow> a = x) \<and>
             verb = [0x66F4, 0x65B0, 0x4E86] @ ascii ''('' @ a @ ascii '')''))"
  using assms unfolding pull_request_action_text_def
  by (auto simp: bind_eq_Some_conv ascii_def split: if_splits)


lemma formatPullRequestMessage_example:
  "formatPullRequestMessage pull_request_example = Some pull_request_example_text"
  by (simp add: formatPullRequestMessage_def pull_request_example_def
      pull_request_example_text_def pull_request_action_text_def ascii_def)

text \<open>
  C5. For every pull-request payload that has \<open>pull_request\<close> and
  \<open>repository\<close>, a sender, and fields that can be rendered, the formatter produces
  the message, and the verb between the sender and \<open>Pull Request:\<close> is chosen by
  the action: \<open>opened\<close> gives the created verb, \<open>closed\<close> the merged verb when
  the \<open>merged\<close> flag of the pull request is truthy and the closed verb otherwise,
  \<open>reopened\<close> and \<open>edited\<close> their own verbs, and any other action the updated
  verb with the action inside the brackets, a string action verbatim.
\<close>

theorem pull_request_action_verb:
  assumes "get_prop data (ascii ''action'') = Some action"
    and "get_prop data (ascii ''pull_request'') = Some pull_request" and "truthy pull_request"
    and "get_prop data (ascii ''repository'') = Some repository" and "truthy repository"
    and "get_prop data (ascii ''sender'') = Some sender"
    and "get_prop sender (ascii ''login'') = Some senderLogin"
    and "get_prop pull_request (ascii ''title'') = Some title"
    and "get_prop pull_request (ascii ''number'') = Some number"
    and "get_prop pull_request (ascii ''html_url'') = Some htmlUrl"
    and "get_prop pull_request (ascii ''merged'') = Some merged"
    and "get_prop repository (ascii ''full_name'') = Some repoName"
    and "to_string htmlUrl = Some h" and "to_string repoName = Some r"
    and "to_string number = Some n" and "to_string senderLogin = Some s"
    and "to_string title = Some t" and "to_string action = Some a"
  shows "formatPullRequestMessage data =
       Some (ascii ''<b>GitHub PR'' @ [0x901A, 0x77E5] @ ascii ''</b>'' @ [10, 10] @
             ascii ''<a href='' @ [0x22] @ h @ [0x22] @ ascii ''>'' @ r @ ascii '' #'' @ n @
               ascii ''</a>'' @ [10] @
             s @ ascii '' '' @
             (if action = JStr (ascii ''opened'') then [0x521B, 0x5EFA, 0x4E86, 0x65B0, 0x7684]
              else if action = JStr (ascii ''closed'')
                then (if truthy merged then [0x5408, 0x5E76, 0x4E86] else [0x5173, 0x95ED, 0x4E86])
              else if action = JStr (ascii ''reopened'') then [0x91CD, 0x65B0, 0x6253, 0x5F00, 0x4E86]
              else if action = JStr (ascii ''edited'') then [0x7F16, 0x8F91, 0x4E86]
              else [0x66F4, 0x65B0, 0x4E86] @ ascii ''('' @ a @ ascii '')'') @
             ascii '' Pull Request: '' @ t) \<and>
     (\<forall>x. action = JStr x \<longrightarrow> a = x)"
proof -
  have v: "pull_request_action_text action pull_request =
       Some (if action = JStr (ascii ''opened'') then [0x521B, 0x5EFA, 0x4E86, 0x65B0, 0x7684]
              else if action = JStr (ascii ''closed'')
                then (if truthy merged then [0x5408, 0x5E76, 0x4E86] else [0x5173, 0x95ED, 0x4E86])
              else if action = JStr (ascii ''reopened'') then [0x91CD, 0x65B0, 0x6253, 0x5F00, 0x4E86]
              else if action = JStr (ascii ''edited'') then [0x7F16, 0x8F91, 0x4E86]
              else [0x66F4, 0x65B0, 0x4E86] @ ascii ''('' @ a @ ascii '')'')"
    using assms(11,18) by (simp add: pull_request_action_text_def)
  have m: "formatPullRequestMessage data =
       Some (ascii ''<b>GitHub PR'' @ [0x901A, 0x77E5] @ ascii ''</b>'' @ [10, 10] @
             ascii ''<a href='' @ [0x22] @ h @ [0x22] @ ascii ''>'' @ r @ ascii '' #'' @ n @
               ascii ''</a>'' @ [10] @
             s @ ascii '' '' @
             (if action = JStr (ascii ''opened'') then [0x521B, 0x5EFA, 0x4E86, 0x65B0, 0x7684]
              else if action = JStr (ascii ''closed'')
                then (if truthy merged then [0x5408, 0x5E76, 0x4E86] else [0x5173, 0x95ED, 0x4E86])
              else if action = JStr (ascii ''reopened'') then [0x91CD, 0x65B0, 0x6253, 0x5F00, 0x4E86]
              else if action = JStr (ascii ''edited'') then [0x7F16, 0x8F91, 0x4E86]
              else [0x66F4, 0x65B0, 0x4E86] @ ascii ''('' @ a @ ascii '')'') @
             ascii '' Pull Request: '' @ t)"
    unfolding formatPullRequestMessage_def
    using assms(1-10,12-17) by (simp add: v)
  have "\<forall>x. action = JStr x \<longrightarrow> a = x"
    using assms(18) by auto
  with m show ?thesis by (rule conjI)
qed

theorem pull_request_action_verb_witness:
  "formatPullRequestMessage (pull_request_payload (JStr (ascii ''opened'')) (JBool False)) =
     Some (pull_request_payload_text [0x521B, 0x5EFA, 0x4E86, 0x65B0, 0x7684]) \<and>
   formatPullRequestMessage (pull_request_payload (JStr (ascii ''closed'')) (JBool True)) =
     Some (pull_request_payload_text [0x5408, 0x5E76, 0x4E86]) \<and>
   formatPullRequestMessage (pull_request_payload (JStr (ascii ''closed'')) (JBool False)) =
     Some (pull_request_payload_text [0x5173, 0x95ED, 0x4E86]) \<and>
   formatPullRequestMessage (pull_request_payload (JStr (ascii ''reopened'')) (JBool False)) =
     Some (pull_request_payload_text [0x91CD, 0x65B0, 0x6253, 0x5F00, 0x4E86]) \<and>
   formatPullRequestMessage (pull_request_payload (JStr (ascii ''edited'')) (JBool False)) =
     Some (pull_request_payload_text [0x7F16, 0x8F91, 0x4E86]) \<and>
   formatPullRequestMessage (pull_request_payload (JStr (ascii ''labeled'')) (JBool False)) =
     Some (pull_request_payload_text ([0x66F4, 0x65B0, 0x4E86] @ ascii ''(labeled)''))"
proof -
  have w: "formatPullRequestMessage (pull_request_payload (JStr x) merged) =
       Some (pull_request_payload_text
         (if JStr x = JStr (ascii ''opened'') then [0x521B, 0x5EFA, 0x4E86, 0x65B0, 0x7684]
          else if JStr x = JStr (ascii ''closed'')
            then (if truthy merged then [0x5408, 0x5E76, 0x4E86] else [0x5173, 0x95ED, 0x4E86])
          else if JStr x = JStr (ascii ''reopened'') then [0x91CD, 0x65B0, 0x6253, 0x5F00, 0x4E86]
          else if JStr x = JStr (ascii ''edited'') then [0x7F16, 0x8F91, 0x4E86]
          else [0x66F4, 0x65B0, 0x4E86] @ ascii ''('' @ x @ ascii '')''))" for x merged
  proof -
    let ?pr = "JObj [(ascii ''merged'', merged), (ascii ''title'', JStr (ascii ''T'')),
        (ascii ''number'', JNum True (ascii ''7'')), (ascii ''html_url'', JStr (ascii ''h''))]"
    let ?repo = "JObj [(ascii ''full_name'', JStr (ascii ''a/b''))]"
    let ?sender = "JObj [(ascii ''login'', JStr (ascii ''bob''))]"
    have f: "get_prop (pull_request_payload (JStr x) merged) (ascii ''action'') = Some (JStr x)"
        "get_prop (pull_request_payload (JStr x) merged) (ascii ''pull_request'') = Some ?pr"
        "truthy ?pr"
        "get_prop (pull_request_payload (JStr x) merged) (ascii ''repository'') = Some ?repo"
        "truthy ?repo"
        "get_prop (pull_request_payload (JStr x) merged) (ascii ''sender'') = Some ?sender"
        "get_prop ?sender (ascii ''login'') = Some (JStr (ascii ''bob''))"
        "get_prop ?pr (ascii ''title'') = Some (JStr (ascii ''T''))"
        "get_prop ?pr (ascii ''number'') = Some (JNum True (ascii ''7''))"
        "get_prop ?pr (ascii ''html_url'') = Some (JStr (ascii ''h''))"
        "get_prop ?pr (ascii ''merged'') = Some merged"
        "get_prop ?repo (ascii ''full_name'') = Some (JStr (ascii ''a/b''))"
        "to_string (JStr (ascii ''h'')) = Some (ascii ''h'')"
        "to_string (JStr (ascii ''a/b'')) = Some (ascii ''a/b'')"
        "to_string (JNum True (ascii ''7'')) = Some (ascii ''7'')"
        "to_string (JStr (ascii ''bob'')) = Some (ascii ''bob'')"
        "to_string (JStr (ascii ''T'')) = Some (ascii ''T'')"
        "to_string (JStr x) = Some x"
      by (simp_all add: pull_request_payload_def ascii_def)
    from pull_request_action_verb[OF f] show ?thesis
      by (simp add: pull_request_payload_text_def ascii_def)
  qed
  show ?thesis
    by (intro conjI; subst w; simp add: ascii_def)
qed

text \<open>
  Conversely, a message is produced only for such a payload, with a verb of the
  table: \<open>formatPullRequestMessage_Some\<close> and \<open>pull_request_action_text_cases\<close>
  above.
\<close>

text \<open>
  The replacement strips the pattern from a string that begins with it, and leaves a
  string in which the pattern occurs nowhere as it is.
\<close>

lemma replace_first_prefix: "replace_first pat rep (pat @ s) = rep @ s"
proof (cases "pat @ s")
  case Nil
  then show ?thesis by simp
next
  case (Cons a list)
  have p: "prefix pat (a # list)" unfolding Cons[symmetric] by simp
  have d: "drop (length pat) (a # list) = s" unfolding Cons[symmetric] by simp
  have "replace_first pat rep (a # list) = rep @ s" using p d by simp
  then show ?thesis unfolding Cons .
qed

lemma replace_first_absent:
  "\<forall>pre post. s \<noteq> pre @ pat @ post \<Longrightarrow> replace_first pat rep s = s"
proof (induction s)
  case Nil
  then show ?case by auto
next
  case (Cons c cs)
  have np: "\<not> prefix pat (c # cs)"
  proof
    assume "prefix pat (c # cs)"
    then obtain post where "c # cs = pat @ post" by (auto simp: prefix_def)
    then have "c # cs = [] @ pat @ post" by simp
    with Cons.prems show False by blast
  qed
  have "\<forall>pre post. cs \<noteq> pre @ pat @ post"
  proof (intro allI notI)
    fix pre post assume "cs = pre @ pat @ post"
    then have "c # cs = (c # pre) @ pat @ post" by simp
    with Cons.prems show False by blast
  qed
  with Cons.IH np show ?case by simp
qed

text \<open>
  C6. The branch text is \<open>ref.replace('refs/heads/', '')\<close>, which removes the
  first occurrence of \<open>refs/heads/\<close> wherever it stands: the ref of a tag named
  \<open>refs/heads/x\<close> does not begin with the prefix and is still changed, to
  \<open>refs/tags/x\<close>.
\<close>

theorem push_branch_replaced_inside_ref:
  "formatPushMessage (push_example (ascii ''refs/tags/refs/heads/x'') (ascii ''fix'')) =
     Some (push_example_text (ascii ''refs/tags/x'') (ascii ''fix'')) \<and>
   \<not> prefix (ascii ''refs/heads/'') (ascii ''refs/tags/refs/heads/x'') \<and>
   ascii ''refs/tags/x'' \<noteq> ascii ''refs/tags/refs/heads/x''"
  by (simp add: formatPushMessage_example) (simp add: ascii_def)

theorem push_branch_replaced_inside_ref_witness:
  "\<exists>branch. formatPushMessage (push_example (ascii ''refs/tags/refs/heads/x'') (ascii ''fix'')) =
     Some (push_example_text branch (ascii ''fix'')) \<and> branch \<noteq> ascii ''refs/tags/refs/heads/x''"
  using push_branch_replaced_inside_ref by blast

text \<open>
  C7. For every push payload that has \<open>repository\<close> and \<open>head_commit\<close>, a
  string \<open>ref\<close>, a sender, a string commit message and a repository that can be
  rendered, the formatter produces the message, and the message ends with the first
  100 code units of the commit message, followed by \<open>...\<close> exactly when the commit
  message is longer than 100; a commit message of at most 100 code units, and so one
  of exactly 100, stands there unchanged and without the ellipsis.
\<close>

theorem push_commit_message_excerpt:
  assumes "get_prop data (ascii ''ref'') = Some (JStr ref)"
    and "get_prop data (ascii ''repository'') = Some repository" and "truthy repository"
    and "get_prop data (ascii ''head_commit'') = Some head_commit" and "truthy head_commit"
    and "get_prop data (ascii ''sender'') = Some sender"
    and "get_prop sender (ascii ''login'') = Some senderLogin"
    and "get_prop head_commit (ascii ''message'') = Some (JStr m)"
    and "get_prop repository (ascii ''full_name'') = Some repoName"
    and "get_prop repository (ascii ''html_url'') = Some html_url"
    and "to_string html_url = Some u" and "to_string repoName = Some r"
    and "to_string senderLogin = Some s"
  shows "formatPushMessage data =
       Some (ascii ''<b>GitHub Push'' @ [0x901A, 0x77E5] @ ascii ''</b>'' @ [10, 10] @
             ascii ''<a href='' @ [0x22] @ u @ [0x22] @ ascii ''>'' @ r @ ascii ''</a>'' @ [10] @
             s @ ascii '' '' @ [0x63A8, 0x9001, 0x5230] @ ascii '' '' @
               replace_first (ascii ''refs/heads/'') [] ref @ ascii '' '' @ [0x5206, 0x652F] @ [10] @
             [0x63D0, 0x4EA4] @ ascii '': '' @ take 100 m @
               (if 100 < length m then ascii ''...'' else [])) \<and>
     (length m \<le> 100 \<longrightarrow>
        formatPushMessage data =
          Some (ascii ''<b>GitHub Push'' @ [0x901A, 0x77E5] @ ascii ''</b>'' @ [10, 10] @
                ascii ''<a href='' @ [0x22] @ u @ [0x22] @ ascii ''>'' @ r @ ascii ''</a>'' @ [10] @
                s @ ascii '' '' @ [0x63A8, 0x9001, 0x5230] @ ascii '' '' @
                  replace_first (ascii ''refs/heads/'') [] ref @ ascii '' '' @ [0x5206, 0x652F] @
                  [10] @
                [0x63D0, 0x4EA4] @ ascii '': '' @ m))"
proof -
  have c: "get_prop head_commit (ascii ''url'') \<noteq> None"
    using assms(5) by (cases head_commit) auto
  have p: "get_prop data (ascii ''pushes'') \<noteq> None"
    using assms(1) by (cases data) auto
  have 1: "formatPushMessage data =
       Some (ascii ''<b>GitHub Push'' @ [0x901A, 0x77E5] @ ascii ''</b>'' @ [10, 10] @
             ascii ''<a href='' @ [0x22] @ u @ [0x22] @ ascii ''>'' @ r @ ascii ''</a>'' @ [10] @
             s @ ascii '' '' @ [0x63A8, 0x9001, 0x5230] @ ascii '' '' @
               replace_first (ascii ''refs/heads/'') [] ref @ ascii '' '' @ [0x5206, 0x652F] @ [10] @
             [0x63D0, 0x4EA4] @ ascii '': '' @ take 100 m @
               (if 100 < length m then ascii ''...'' else []))"
    unfolding formatPushMessage_def substring_method_def string_length_def replace_method_def
      substring_def
    using assms c p by auto
  then have "length m \<le> 100 \<longrightarrow>
        formatPushMessage data =
          Some (ascii ''<b>GitHub Push'' @ [0x901A, 0x77E5] @ ascii ''</b>'' @ [10, 10] @
                ascii ''<a href='' @ [0x22] @ u @ [0x22] @ ascii ''>'' @ r @ ascii ''</a>'' @ [10] @
                s @ ascii '' '' @ [0x63A8, 0x9001, 0x5230] @ ascii '' '' @
                  replace_first (ascii ''refs/heads/'') [] ref @ ascii '' '' @ [0x5206, 0x652F] @
                  [10] @
                [0x63D0, 0x4EA4] @ ascii '': '' @ m)"
    by simp
  with 1 show ?thesis by (rule conjI)
qed

theorem push_commit_message_excerpt_witness:
  "formatPushMessage (push_example (ascii ''refs/heads/main'') (replicate 150 0x78)) =
     Some (push_example_text (ascii ''main'') (replicate 100 0x78 @ ascii ''...'')) \<and>
   formatPushMessage (push_example (ascii ''refs/heads/main'') (replicate 100 0x78)) =
     Some (push_example_text (ascii ''main'') (replicate 100 0x78)) \<and>
   formatPushMessage (push_example (ascii ''refs/heads/main'') (ascii ''fix'')) =
     Some (push_example_text (ascii ''main'') (ascii ''fix''))"
proof -
  have w: "formatPushMessage (push_example (ascii ''refs/heads/main'') m) =
       Some (push_example_text (ascii ''main'')
               (take 100 m @ (if 100 < length m then ascii ''...'' else [])))" for m
  proof -
    let ?d = "push_example (ascii ''refs/heads/main'') m"
    let ?repo = "JObj [(ascii ''full_name'', JStr (ascii ''a/b'')),
        (ascii ''html_url'', JStr (ascii ''u''))]"
    let ?hc = "JObj [(ascii ''message'', JStr m), (ascii ''url'', JStr (ascii ''c''))]"
    let ?sender = "JObj [(ascii ''login'', JStr (ascii ''alice''))]"
    have f: "get_prop ?d (ascii ''ref'') = Some (JStr (ascii ''refs/heads/main''))"
        "get_prop ?d (ascii ''repository'') = Some ?repo" "truthy ?repo"
        "get_prop ?d (ascii ''head_commit'') = Some ?hc" "truthy ?hc"
        "get_prop ?d (ascii ''sender'') = Some ?sender"
        "get_prop ?sender (ascii ''login'') = Some (JStr (ascii ''alice''))"
        "get_prop ?hc (ascii ''message'') = Some (JStr m)"
        "get_prop ?repo (ascii ''full_name'') = Some (JStr (ascii ''a/b''))"
        "get_prop ?repo (ascii ''html_url'') = Some (JStr (ascii ''u''))"
        "to_string (JStr (ascii ''u'')) = Some (ascii ''u'')"
        "to_string (JStr (ascii ''a/b'')) = Some (ascii ''a/b'')"
        "to_string (JStr (ascii ''alice'')) = Some (ascii ''alice'')"
      by (simp_all add: push_example_def ascii_def)
    from push_commit_message_excerpt[OF f] show ?thesis
      by (simp add: push_example_text_def ascii_def)
  qed
  show ?thesis
    by (intro conjI; subst w; simp add: ascii_def)
qed

text \<open>
  Conversely, a message is produced only for such a payload:
  \<open>formatPushMessage_Some\<close> above.
\<close>

section \<open>Properties of the webhook endpoint\<close>

lemma formatPullRequestMessage_falsy:
  "falsy_field data (ascii ''pull_request'') \<or> falsy_field data (ascii ''repository'') \<Longrightarrow>
     formatPullRequestMessage data = Some []"
  unfolding falsy_field_def formatPullRequestMessage_def
  by (cases data) (auto split: option.splits)

lemma formatPushMessage_falsy:
  "falsy_field data (ascii ''repository'') \<or> falsy_field data (ascii ''head_commit'') \<Longrightarrow>
     formatPushMessage data = Some []"
  unfolding falsy_field_def formatPushMessage_def
  by (cases data) (auto split: option.splits)

lemma formatIssuesMessage_falsy:
  "falsy_field data (ascii ''issue'') \<or> falsy_field data (ascii ''repository'') \<Longrightarrow>
     formatIssuesMessage data = Some []"
  unfolding falsy_field_def formatIssuesMessage_def
  by (cases data) (auto split: option.splits)

lemma formatReleaseMessage_falsy:
  "falsy_field data (ascii ''release'') \<or> falsy_field data (ascii ''repository'') \<Longrightarrow>
     formatReleaseMessage data = Some []"
  unfolding falsy_field_def formatReleaseMessage_def
  by (cases data) (auto split: option.splits)

lemma onRequest_formatted:
  assumes "method request = ascii ''POST''" and "event_header request = Some ev" and "ev \<noteq> []"
    and "read_data rt e request = Next data"
    and "truthy (resolve_chat_id b e request)"
  shows "onRequest rt b e request =
     (case format_event ev data of
        None \<Rightarrow> (json_response 500 500 (ascii ''Server error''), [])
      | Some message \<Rightarrow>
          (case deliver b message (resolve_chat_id b e request) of
             (Some r, sent) \<Rightarrow> (r, sent)
           | (None, sent) \<Rightarrow> (json_response 500 500 (ascii ''Server error''), sent)))"
  using assms by (simp add: onRequest_def try_block_def nonempty_def split: option.splits)

lemma deliver_empty: "deliver b [] c = (Some (json_response 200 200 (ascii ''No message to send'')), [])"
  by (simp add: deliver_def)

text \<open>
  C8. For each of the four event types, a payload in which a required field is missing
  (or falsy) is formatted to the empty string, and a request that reaches the formatter
  with such a payload is answered 200 with \<open>No message to send\<close>, with no call of
  \<open>bot.sendMessage\<close>.
\<close>

theorem missing_required_field_no_delivery:
  assumes "(ev = ascii ''pull_request'' \<and>
              (falsy_field data (ascii ''pull_request'') \<or> falsy_field data (ascii ''repository''))) \<or>
           (ev = ascii ''push'' \<and>
              (falsy_field data (ascii ''repository'') \<or> falsy_field data (ascii ''head_commit''))) \<or>
           (ev = ascii ''issues'' \<and>
              (falsy_field data (ascii ''issue'') \<or> falsy_field data (ascii ''repository''))) \<or>
           (ev = ascii ''release'' \<and>
              (falsy_field data (ascii ''release'') \<or> falsy_field data (ascii ''repository'')))"
  shows "format_event ev data = Some [] \<and>
     (ev = ascii ''pull_request'' \<longrightarrow> formatPullRequestMessage data = Some []) \<and>
     (ev = ascii ''push'' \<longrightarrow> formatPushMessage data = Some []) \<and>
     (ev = ascii ''issues'' \<longrightarrow> formatIssuesMessage data = Some []) \<and>
     (ev = ascii ''release'' \<longrightarrow> formatReleaseMessage data = Some []) \<and>
     (\<forall>rt b e request.
        method request = ascii ''POST'' \<and> event_header request = Some ev \<and>
        read_data rt e request = Next data \<and> truthy (resolve_chat_id b e request) \<longrightarrow>
        onRequest rt b e request = (json_response 200 200 (ascii ''No message to send''), []))"
proof -
  have fe: "format_event ev data = Some []"
    using assms formatPullRequestMessage_falsy[of data] formatPushMessage_falsy[of data]
      formatIssuesMessage_falsy[of data] formatReleaseMessage_falsy[of data]
    by (auto simp: format_event_def ascii_def)
  have ne: "ev \<noteq> []" using assms by (auto simp: ascii_def)
  have each: "(ev = ascii ''pull_request'' \<longrightarrow> formatPullRequestMessage data = Some []) \<and>
     (ev = ascii ''push'' \<longrightarrow> formatPushMessage data = Some []) \<and>
     (ev = ascii ''issues'' \<longrightarrow> formatIssuesMessage data = Some []) \<and>
     (ev = ascii ''release'' \<longrightarrow> formatReleaseMessage data = Some [])"
    using fe by (auto simp: format_event_def ascii_def)
  have "onRequest rt b e request = (json_response 200 200 (ascii ''No message to send''), [])"
    if "method request = ascii ''POST''" "event_header request = Some ev"
       "read_data rt e request = Next data" "truthy (resolve_chat_id b e request)"
    for rt b e request
    using onRequest_formatted[OF that(1,2) ne that(3,4)] fe by (simp add: deliver_empty)
  with fe each show ?thesis by blast
qed

theorem missing_required_field_no_delivery_witness:
  "falsy_field no_pull_request_example (ascii ''pull_request'') \<and>
   formatPullRequestMessage no_pull_request_example = Some [] \<and>
   onRequest (fixed_runtime (Some no_pull_request_example) []) (fixed_bot None None None)
       (chat_env None (Some (ascii ''42''))) (post_request (ascii ''pull_request'') None None) =
     (json_response 200 200 (ascii ''No message to send''), [])"
proof -
  let ?rt = "fixed_runtime (Some no_pull_request_example) []"
  let ?b = "fixed_bot None None None"
  let ?e = "chat_env None (Some (ascii ''42''))"
  let ?r = "post_request (ascii ''pull_request'') None None"
  have f: "falsy_field no_pull_request_example (ascii ''pull_request'')"
    by (simp add: falsy_field_def no_pull_request_example_def ascii_def)
  have h: "(ascii ''pull_request'' = ascii ''pull_request'' \<and>
              (falsy_field no_pull_request_example (ascii ''pull_request'') \<or>
               falsy_field no_pull_request_example (ascii ''repository''))) \<or>
           (ascii ''pull_request'' = ascii ''push'' \<and>
              (falsy_field no_pull_request_example (ascii ''repository'') \<or>
               falsy_field no_pull_request_example (ascii ''head_commit''))) \<or>
           (ascii ''pull_request'' = ascii ''issues'' \<and>
              (falsy_field no_pull_request_example (ascii ''issue'') \<or>
               falsy_field no_pull_request_example (ascii ''repository''))) \<or>
           (ascii ''pull_request'' = ascii ''release'' \<and>
              (falsy_field no_pull_request_example (ascii ''release'') \<or>
               falsy_field no_pull_request_example (ascii ''repository'')))"
    using f by simp
  have m: "method ?r = ascii ''POST''" and ev: "event_header ?r = Some (ascii ''pull_request'')"
    by (simp_all add: post_request_def)
  have rd: "read_data ?rt ?e ?r = Next no_pull_request_example"
    by (simp add: read_data_def fixed_runtime_def chat_env_def post_request_def nonempty_def)
  have ch: "truthy (resolve_chat_id ?b ?e ?r)"
    by (simp add: resolve_chat_id_def chat_env_def nonempty_def ascii_def)
  from missing_required_field_no_delivery[OF h] m ev rd ch f show ?thesis by blast
qed

lemma formatPullRequestMessage_no_sender:
  "truthy_field data (ascii ''pull_request'') \<Longrightarrow> truthy_field data (ascii ''repository'') \<Longrightarrow>
   nullish_field data (ascii ''sender'') \<Longrightarrow> formatPullRequestMessage data = None"
  unfolding truthy_field_def nullish_field_def nullish_def formatPullRequestMessage_def
  by (auto simp: bind_eq_None_conv bind_eq_Some_conv split: option.splits)

lemma formatIssuesMessage_no_sender:
  "truthy_field data (ascii ''issue'') \<Longrightarrow> truthy_field data (ascii ''repository'') \<Longrightarrow>
   nullish_field data (ascii ''sender'') \<Longrightarrow> formatIssuesMessage data = None"
  unfolding truthy_field_def nullish_field_def nullish_def formatIssuesMessage_def
  by (auto simp: bind_eq_None_conv bind_eq_Some_conv split: option.splits)

lemma formatReleaseMessage_no_sender:
  "truthy_field data (ascii ''release'') \<Longrightarrow> truthy_field data (ascii ''repository'') \<Longrightarrow>
   nullish_field data (ascii ''sender'') \<Longrightarrow> formatReleaseMessage data = None"
  unfolding truthy_field_def nullish_field_def nullish_def formatReleaseMessage_def
  by (auto simp: bind_eq_None_conv bind_eq_Some_conv split: option.splits)

lemma formatPushMessage_no_ref:
  "truthy_field data (ascii ''repository'') \<Longrightarrow> truthy_field data (ascii ''head_commit'') \<Longrightarrow>
   nullish_field data (ascii ''ref'') \<Longrightarrow> formatPushMessage data = None"
  unfolding truthy_field_def nullish_field_def nullish_def formatPushMessage_def replace_method_def
  by (auto simp: bind_eq_None_conv bind_eq_Some_conv split: option.splits)

text \<open>
  C9. A pull-request, issues or release payload that has its two required fields but
  no \<open>sender\<close>, and a push payload that has \<open>repository\<close> and
  \<open>head_commit\<close> but no \<open>ref\<close>, make the formatter throw; a request that
  reaches the formatter with such a payload is answered 500 with \<open>Server error\<close>,
  and nothing is sent.
\<close>

theorem missing_sender_or_ref_server_error:
  assumes "(ev = ascii ''pull_request'' \<and> truthy_field data (ascii ''pull_request'') \<and>
              truthy_field data (ascii ''repository'') \<and> nullish_field data (ascii ''sender'')) \<or>
           (ev = ascii ''issues'' \<and> truthy_field data (ascii ''issue'') \<and>
              truthy_field data (ascii ''repository'') \<and> nullish_field data (ascii ''sender'')) \<or>
           (ev = ascii ''release'' \<and> truthy_field data (ascii ''release'') \<and>
              truthy_field data (ascii ''repository'') \<and> nullish_field data (ascii ''sender'')) \<or>
           (ev = ascii ''push'' \<and> truthy_field data (ascii ''repository'') \<and>
              truthy_field data (ascii ''head_commit'') \<and> nullish_field data (ascii ''ref''))"
  shows "format_event ev data = None \<and>
     (ev = ascii ''pull_request'' \<longrightarrow> formatPullRequestMessage data = None) \<and>
     (ev = ascii ''issues'' \<longrightarrow> formatIssuesMessage data = None) \<and>
     (ev = ascii ''release'' \<longrightarrow> formatReleaseMessage data = None) \<and>
     (ev = ascii ''push'' \<longrightarrow> formatPushMessage data = None) \<and>
     (\<forall>rt b e request.
        method request = ascii ''POST'' \<and> event_header request = Some ev \<and>
        read_data rt e request = Next data \<and> truthy (resolve_chat_id b e request) \<longrightarrow>
        onRequest rt b e request = (json_response 500 500 (ascii ''Server error''), []))"
proof -
  have fe: "format_event ev data = None"
    using assms formatPullRequestMessage_no_sender[of data] formatPushMessage_no_ref[of data]
      formatIssuesMessage_no_sender[of data] formatReleaseMessage_no_sender[of data]
    by (auto simp: format_event_def ascii_def)
  have ne: "ev \<noteq> []" using assms by (auto simp: ascii_def)
  have each: "(ev = ascii ''pull_request'' \<longrightarrow> formatPullRequestMessage data = None) \<and>
     (ev = ascii ''issues'' \<longrightarrow> formatIssuesMessage data = None) \<and>
     (ev = ascii ''release'' \<longrightarrow> formatReleaseMessage data = None) \<and>
     (ev = ascii ''push'' \<longrightarrow> formatPushMessage data = None)"
    using fe by (auto simp: format_event_def ascii_def)
  have "onRequest rt b e request = (json_response 500 500 (ascii ''Server error''), [])"
    if "method request = ascii ''POST''" "event_header request = Some ev"
       "read_data rt e request = Next data" "truthy (resolve_chat_id b e request)"
    for rt b e request
    using onRequest_formatted[OF that(1,2) ne that(3,4)] fe by simp
  with fe each show ?thesis by blast
qed

theorem missing_sender_or_ref_server_error_witness:
  "truthy_field no_sender_example (ascii ''pull_request'') \<and>
   truthy_field no_sender_example (ascii ''repository'') \<and>
   nullish_field no_sender_example (ascii ''sender'') \<and>
   formatPullRequestMessage no_sender_example = None \<and>
   onRequest (fixed_runtime (Some no_sender_example) []) (fixed_bot None None None)
       (chat_env None (Some (ascii ''42''))) (post_request (ascii ''pull_request'') None None) =
     (json_response 500 500 (ascii ''Server error''), [])"
proof -
  let ?rt = "fixed_runtime (Some no_sender_example) []"
  let ?b = "fixed_bot None None None"
  let ?e = "chat_env None (Some (ascii ''42''))"
  let ?r = "post_request (ascii ''pull_request'') None None"
  have f: "truthy_field no_sender_example (ascii ''pull_request'')"
      "truthy_field no_sender_example (ascii ''repository'')"
      "nullish_field no_sender_example (ascii ''sender'')"
    by (simp_all add: truthy_field_def nullish_field_def nullish_def no_sender_example_def ascii_def)
  have h: "(ascii ''pull_request'' = ascii ''pull_request'' \<and>
              truthy_field no_sender_example (ascii ''pull_request'') \<and>
              truthy_field no_sender_example (ascii ''repository'') \<and>
              nullish_field no_sender_example (ascii ''sender'')) \<or>
           (ascii ''pull_request'' = ascii ''issues'' \<and>
              truthy_field no_sender_example (ascii ''issue'') \<and>
              truthy_field no_sender_example (ascii ''repository'') \<and>
              nullish_field no_sender_example (ascii ''sender'')) \<or>
           (ascii ''pull_request'' = ascii ''release'' \<and>
              truthy_field no_sender_example (ascii ''release'') \<and>
              truthy_field no_sender_example (ascii ''repository'') \<and>
              nullish_field no_sender_example (ascii ''sender'')) \<or>
           (ascii ''pull_request'' = ascii ''push'' \<and>
              truthy_field no_sender_example (ascii ''repository'') \<and>
              truthy_field no_sender_example (ascii ''head_commit'') \<and>
              nullish_field no_sender_example (ascii ''ref''))"
    using f by simp
  have m: "method ?r = ascii ''POST''" and ev: "event_header ?r = Some (ascii ''pull_request'')"
    by (simp_all add: post_request_def)
  have rd: "read_data ?rt ?e ?r = Next no_sender_example"
    by (simp add: read_data_def fixed_runtime_def chat_env_def post_request_def nonempty_def)
  have ch: "truthy (resolve_chat_id ?b ?e ?r)"
    by (simp add: resolve_chat_id_def chat_env_def nonempty_def ascii_def)
  from missing_sender_or_ref_server_error[OF h] m ev rd ch f show ?thesis by blast
qed

lemma resolve_chat_id_default:
  "nonempty (default_chat_id e) \<Longrightarrow> resolve_chat_id b e request = JStr (the (default_chat_id e))"
  by (auto simp: resolve_chat_id_def nonempty_def split: option.splits)

lemma read_data_token_param [simp]:
  "read_data rt e (request\<lparr>token_param := t\<rparr>) = read_data rt e request"
  by (simp add: read_data_def)

lemma deliver_decryption [simp]: "deliver (b\<lparr>decryption := d\<rparr>) message c = deliver b message c"
  by (simp add: deliver_def)

lemma deliver_sent:
  "deliver b message c = (r, sent) \<Longrightarrow> a \<in> set sent \<Longrightarrow> chat_id a = c"
  by (auto simp: deliver_def Let_def split: if_splits)

lemma onRequest_sent:
  "a \<in> set (snd (onRequest rt b e request)) \<Longrightarrow> chat_id a = resolve_chat_id b e request"
  by (auto simp: onRequest_def try_block_def Let_def dest: deliver_sent
      split: if_splits option.splits step.splits prod.splits)

text \<open>
  C10. With a default chat identifier configured, the handler does not depend on the
  \<open>token\<close> parameter: two requests that differ only in the token give the same
  response and the same calls of \<open>bot.sendMessage\<close>, \<open>bot.decryption\<close> is
  never consulted, and the chat target, also of every message sent, is the default
  identifier.
\<close>

theorem default_chat_id_ignores_token:
  assumes "nonempty (default_chat_id e)"
  shows "onRequest rt b e (request\<lparr>token_param := t1\<rparr>) = onRequest rt b e (request\<lparr>token_param := t2\<rparr>) \<and>
     onRequest rt (b\<lparr>decryption := d\<rparr>) e request = onRequest rt b e request \<and>
     resolve_chat_id b e (request\<lparr>token_param := t1\<rparr>) = JStr (the (default_chat_id e)) \<and>
     (\<forall>a \<in> set (snd (onRequest rt b e (request\<lparr>token_param := t1\<rparr>))).
        chat_id a = JStr (the (default_chat_id e)))"
proof -
  have r: "resolve_chat_id b' e request' = JStr (the (default_chat_id e))" for b' request'
    using assms by (rule resolve_chat_id_default)
  have 1: "onRequest rt b e (request\<lparr>token_param := t1\<rparr>) = onRequest rt b e (request\<lparr>token_param := t2\<rparr>)"
    by (simp add: onRequest_def try_block_def r Let_def split: step.splits option.splits)
  have 2: "onRequest rt (b\<lparr>decryption := d\<rparr>) e request = onRequest rt b e request"
    by (simp add: onRequest_def try_block_def r Let_def split: step.splits option.splits)
  have 3: "\<forall>a \<in> set (snd (onRequest rt b e (request\<lparr>token_param := t1\<rparr>))).
        chat_id a = JStr (the (default_chat_id e))"
    using onRequest_sent[of _ rt b e "request\<lparr>token_param := t1\<rparr>"] by (simp add: r)
  from 1 2 3 r show ?thesis by blast
qed

theorem default_chat_id_ignores_token_witness:
  "nonempty (default_chat_id (chat_env None (Some (ascii ''42'')))) \<and>
   onRequest (fixed_runtime (Some pull_request_example) []) (fixed_bot None None None)
       (chat_env None (Some (ascii ''42'')))
       ((post_request (ascii ''pull_request'') None None)\<lparr>token_param := Some (ascii ''forged'')\<rparr>) =
   onRequest (fixed_runtime (Some pull_request_example) []) (fixed_bot None None None)
       (chat_env None (Some (ascii ''42'')))
       ((post_request (ascii ''pull_request'') None None)\<lparr>token_param := None\<rparr>)"
proof -
  have h: "nonempty (default_chat_id (chat_env None (Some (ascii ''42''))))"
    by (simp add: chat_env_def nonempty_def ascii_def)
  from default_chat_id_ignores_token[OF h] h show ?thesis by blast
qed

lemma read_data_skipped:
  "\<not> (nonempty (github_webhook_secret e) \<and> nonempty (signature_header request)) \<Longrightarrow>
   read_data rt e request =
     (case json_parse rt (body request) of None \<Rightarrow> Throw | Some data \<Rightarrow> Next data)"
  by (auto simp: read_data_def)

lemma read_data_no_require:
  "nonempty (github_webhook_secret e) \<Longrightarrow> nonempty (signature_header request) \<Longrightarrow>
   \<not> require_defined rt \<Longrightarrow> read_data rt e request = Throw"
  by (simp add: read_data_def)

lemma read_data_checked:
  "nonempty (github_webhook_secret e) \<Longrightarrow> nonempty (signature_header request) \<Longrightarrow>
   require_defined rt \<Longrightarrow>
   read_data rt e request =
     (if the (signature_header request) =
           ascii ''sha256='' @ hmac_sha256_hex rt (the (github_webhook_secret e)) (body request)
      then (case json_parse rt (body request) of None \<Rightarrow> Throw | Some data \<Rightarrow> Next data)
      else Respond (json_response 401 401 (ascii ''Invalid signature'')))"
  by (auto simp: read_data_def Let_def)

lemma onRequest_rejected:
  "method request = ascii ''POST'' \<Longrightarrow> nonempty (event_header request) \<Longrightarrow>
   read_data rt e request = Respond r \<Longrightarrow> onRequest rt b e request = (r, [])"
  by (simp add: onRequest_def try_block_def)

lemma onRequest_thrown:
  "method request = ascii ''POST'' \<Longrightarrow> nonempty (event_header request) \<Longrightarrow>
   read_data rt e request = Throw \<Longrightarrow>
   onRequest rt b e request = (json_response 500 500 (ascii ''Server error''), [])"
  by (simp add: onRequest_def try_block_def)

text \<open>
  Where \<open>require\<close> is bound, the check is what the handler sets out to do: the
  header is compared with \<open>sha256=\<close> followed by the digest of the raw body, and a
  mismatch is answered 401 before anything is sent.
\<close>

lemma signature_mismatch_with_require:
  assumes "require_defined rt"
    and "nonempty (github_webhook_secret e)" and "nonempty (signature_header request)"
    and "method request = ascii ''POST''" and "nonempty (event_header request)"
    and "the (signature_header request) \<noteq>
      ascii ''sha256='' @ hmac_sha256_hex rt (the (github_webhook_secret e)) (body request)"
  shows "onRequest rt b e request = (json_response 401 401 (ascii ''Invalid signature''), [])"
proof -
  from assms(1,2,3,6)
  have "read_data rt e request = Respond (json_response 401 401 (ascii ''Invalid signature''))"
    by (simp add: read_data_checked)
  with assms(4,5) show ?thesis by (rule onRequest_rejected)
qed

text \<open>
  C2. In the ES module as it is written \<open>require\<close> is not bound, and the signature
  is never compared: every POST request with an event type that carries a signature
  header, when a secret is configured, is answered 500 with \<open>Server error\<close>,
  whatever the signature, and not 401 on a mismatch.
\<close>

theorem signature_check_throws:
  assumes "\<not> require_defined rt"
    and "nonempty (github_webhook_secret e)" and "nonempty (signature_header request)"
    and "method request = ascii ''POST''" and "nonempty (event_header request)"
  shows "onRequest rt b e request = (json_response 500 500 (ascii ''Server error''), [])"
proof -
  from assms(2,3,1) have "read_data rt e request = Throw"
    by (rule read_data_no_require)
  with assms(4,5) show ?thesis by (rule onRequest_thrown)
qed

theorem signature_check_throws_witness:
  "\<not> require_defined (fixed_runtime (Some pull_request_example) (ascii ''0a1b'')) \<and>
   nonempty (github_webhook_secret (chat_env (Some (ascii ''s3cret'')) (Some (ascii ''42'')))) \<and>
   nonempty (signature_header (post_request (ascii ''push'') (Some (ascii ''sha256=bad'')) None)) \<and>
   onRequest (fixed_runtime (Some pull_request_example) (ascii ''0a1b'')) (fixed_bot None None None)
      (chat_env (Some (ascii ''s3cret'')) (Some (ascii ''42'')))
      (post_request (ascii ''push'') (Some (ascii ''sha256=bad'')) None) =
     (json_response 500 500 (ascii ''Server error''), [])"
proof -
  let ?rt = "fixed_runtime (Some pull_request_example) (ascii ''0a1b'')"
  let ?e = "chat_env (Some (ascii ''s3cret'')) (Some (ascii ''42''))"
  let ?r = "post_request (ascii ''push'') (Some (ascii ''sha256=bad'')) None"
  have h: "\<not> require_defined ?rt" "nonempty (github_webhook_secret ?e)"
      "nonempty (signature_header ?r)" "method ?r = ascii ''POST''" "nonempty (event_header ?r)"
    by (simp_all add: chat_env_def post_request_def fixed_runtime_def nonempty_def ascii_def)
  have "onRequest ?rt (fixed_bot None None None) ?e ?r =
      (json_response 500 500 (ascii ''Server error''), [])"
    using h by (rule signature_check_throws)
  with h(1,2,3) show ?thesis by simp
qed

text \<open>
  C3, as stated, fails: a request with a token that cannot be decoded, and no default
  chat identifier, is answered 422, not 401.
\<close>

theorem undecodable_token_counterexample:
  "decryption (fixed_bot None None None) (ascii ''forged'') = None \<and>
   default_chat_id (chat_env None None) = None \<and>
   onRequest (fixed_runtime (Some pull_request_example) []) (fixed_bot None None None)
      (chat_env None None) (post_request (ascii ''pull_request'') None (Some (ascii ''forged''))) =
     (json_response 422 422 (ascii ''No valid chat_id provided''), []) \<and>
   status (json_response 422 422 (ascii ''No valid chat_id provided'')) \<noteq> 401"
  by (simp add: onRequest_def try_block_def read_data_def resolve_chat_id_def fixed_bot_def
      fixed_runtime_def chat_env_def post_request_def nonempty_def json_response_def ascii_def)

text \<open>
  C3, amended. A POST request with an event type that passes the signature check and
  the parsing of its body, with no default chat identifier configured and a token that
  \<open>bot.decryption\<close> cannot decode (it throws, or gives a falsy value), is answered
  422 with \<open>No valid chat_id provided\<close>, the very response of the same request
  without a token, and nothing is sent.
\<close>

theorem undecodable_token_no_chat:
  assumes "method request = ascii ''POST''" and "nonempty (event_header request)"
    and "read_data rt e request = Next data"
    and "\<not> nonempty (default_chat_id e)"
    and "token_param request = Some t"
    and "case decryption b t of None \<Rightarrow> True | Some c \<Rightarrow> \<not> truthy c"
  shows "onRequest rt b e request = (json_response 422 422 (ascii ''No valid chat_id provided''), []) \<and>
     onRequest rt b e (request\<lparr>token_param := None\<rparr>) = onRequest rt b e request"
proof -
  have c: "\<not> truthy (resolve_chat_id b e request)"
    using assms(4,5,6) by (auto simp: resolve_chat_id_def split: option.splits)
  have c': "\<not> truthy (resolve_chat_id b e (request\<lparr>token_param := None\<rparr>))"
    using assms(4) by (auto simp: resolve_chat_id_def nonempty_def)
  have 1: "onRequest rt b e request = (json_response 422 422 (ascii ''No valid chat_id provided''), [])"
    using assms(1,2,3) c by (simp add: onRequest_def try_block_def)
  have 2: "onRequest rt b e (request\<lparr>token_param := None\<rparr>) =
      (json_response 422 422 (ascii ''No valid chat_id provided''), [])"
    using assms(1,2,3) c' by (simp add: onRequest_def try_block_def)
  from 1 2 show ?thesis by simp
qed

theorem undecodable_token_no_chat_witness:
  "decryption (fixed_bot None None None) (ascii ''forged'') = None \<and>
   \<not> nonempty (default_chat_id (chat_env None None)) \<and>
   onRequest (fixed_runtime (Some pull_request_example) []) (fixed_bot None None None)
      (chat_env None None) (post_request (ascii ''pull_request'') None (Some (ascii ''forged''))) =
     (json_response 422 422 (ascii ''No valid chat_id provided''), [])"
proof -
  let ?rt = "fixed_runtime (Some pull_request_example) []"
  let ?b = "fixed_bot None None None"
  let ?e = "chat_env None None"
  let ?r = "post_request (ascii ''pull_request'') None (Some (ascii ''forged''))"
  have m: "method ?r = ascii ''POST''" and ev: "nonempty (event_header ?r)"
    and tp: "token_param ?r = Some (ascii ''forged'')"
    by (simp_all add: post_request_def nonempty_def ascii_def)
  have rd: "read_data ?rt ?e ?r = Next pull_request_example"
    by (simp add: read_data_def fixed_runtime_def chat_env_def post_request_def nonempty_def)
  have nd: "\<not> nonempty (default_chat_id ?e)"
    by (simp add: chat_env_def nonempty_def)
  have d: "decryption ?b (ascii ''forged'') = None"
    by (simp add: fixed_bot_def)
  then have d': "case decryption ?b (ascii ''forged'') of None \<Rightarrow> True | Some c \<Rightarrow> \<not> truthy c"
    by simp
  from undecodable_token_no_chat[OF m ev rd nd tp d'] d nd show ?thesis by blast
qed

section \<open>Properties of the bot-update endpoint\<close>

lemma token_command_sent:
  "fst (token_command b cid) = Some None \<longleftrightarrow>
     (\<exists>enc c ret ok. encryption b cid = Some enc \<and> to_string cid = Some c \<and>
        sendMessage b (token_message enc cid) = Some ret \<and>
        get_prop ret (ascii ''ok'') = Some ok \<and> truthy ok)"
  by (auto simp: token_command_def bind_eq_Some_conv split: option.splits if_splits)

lemma token_command_status:
  "token_command b cid = (Some (Some r), sent) \<Longrightarrow> status r = 500"
  by (auto simp: token_command_def bind_eq_Some_conv split: option.splits if_splits)

text \<open>
  The status of every response of the endpoint: 405 to a request that is not a POST,
  500 when the body cannot be read as an update, 400 when the update has no chat
  identifier, 500 when the bot token is not configured, 200 for any text other than
  \<open>/token\<close>, and for \<open>/token\<close> 200 exactly when the token is generated and
  the platform acknowledges the send with a truthy \<open>ok\<close>.
\<close>

lemma update_endpoint_status:
  "status (fst (webhook_onRequest rt b e request)) =
     (if method request \<noteq> ascii ''POST'' then 405
      else case read_update rt request of
             None \<Rightarrow> 500
           | Some (message, cid) \<Rightarrow>
               if \<not> truthy cid then 400
               else if \<not> nonempty (token e) then 500
               else if message \<noteq> JStr (ascii ''/token'') then 200
               else if fst (token_command b cid) = Some None then 200
               else 500) \<and>
   (fst (token_command b cid) = Some None \<longleftrightarrow>
     (\<exists>enc c ret ok. encryption b cid = Some enc \<and> to_string cid = Some c \<and>
        sendMessage b (token_message enc cid) = Some ret \<and>
        get_prop ret (ascii ''ok'') = Some ok \<and> truthy ok))"
proof -
  have "status (fst (webhook_onRequest rt b e request)) =
     (if method request \<noteq> ascii ''POST'' then 405
      else case read_update rt request of
             None \<Rightarrow> 500
           | Some (message, cid) \<Rightarrow>
               if \<not> truthy cid then 400
               else if \<not> nonempty (token e) then 500
               else if message \<noteq> JStr (ascii ''/token'') then 200
               else if fst (token_command b cid) = Some None then 200
               else 500)"
    by (auto simp: webhook_onRequest_def update_block_def json_response_def
        dest: token_command_status split: option.splits prod.splits)
  with token_command_sent show ?thesis by blast
qed

text \<open>
  C4. The endpoint does not always answer 200 once the chat identifier and the bot
  token are there: for a \<open>/token\<close> update whose token is generated, a send that
  throws, or that the platform reports as failed (\<open>ok\<close> falsy), is answered 500,
  against the comment of line 142, \<open>Always return a success response to Telegram\<close>.
\<close>

theorem failed_send_answers_500:
  assumes "method request = ascii ''POST''"
    and "read_update rt request = Some (JStr (ascii ''/token''), cid)"
    and "truthy cid" and "nonempty (token e)"
    and "encryption b cid = Some enc"
    and "case sendMessage b (token_message enc cid) of
           None \<Rightarrow> True
         | Some ret \<Rightarrow> (case get_prop ret (ascii ''ok'') of None \<Rightarrow> True | Some ok \<Rightarrow> \<not> truthy ok)"
  shows "status (fst (webhook_onRequest rt b e request)) = 500"
proof -
  have "fst (token_command b cid) \<noteq> Some None"
    using assms(5,6) by (auto simp: token_command_sent)
  with assms(1-4) update_endpoint_status[of rt b e request cid] show ?thesis
    by simp
qed

theorem failed_send_answers_500_witness:
  "read_update (fixed_runtime (Some token_update_example) []) (post_request [] None None) =
     Some (JStr (ascii ''/token''), JNum True (ascii ''42'')) \<and>
   nonempty (token (chat_env None None)) \<and>
   status (fst (webhook_onRequest (fixed_runtime (Some token_update_example) [])
      (fixed_bot (Some (ascii ''TOKEN'')) None (Some (send_reply False)))
      (chat_env None None) (post_request [] None None))) = 500"
proof -
  let ?rt = "fixed_runtime (Some token_update_example) []"
  let ?b = "fixed_bot (Some (ascii ''TOKEN'')) None (Some (send_reply False))"
  let ?cid = "JNum True (ascii ''42'')"
  have m: "method (post_request [] None None) = ascii ''POST''"
    by (simp add: post_request_def)
  have r: "read_update ?rt (post_request [] None None) = Some (JStr (ascii ''/token''), ?cid)"
    by (simp add: read_update_def optional_prop_def nullish_def fixed_runtime_def
        post_request_def token_update_example_def ascii_def)
  have c: "truthy ?cid" by simp
  have n: "nonempty (token (chat_env None None))"
    by (simp add: chat_env_def nonempty_def ascii_def)
  have g: "encryption ?b ?cid = Some (ascii ''TOKEN'')"
    by (simp add: fixed_bot_def)
  have f: "case sendMessage ?b (token_message (ascii ''TOKEN'') ?cid) of
           None \<Rightarrow> True
         | Some ret \<Rightarrow> (case get_prop ret (ascii ''ok'') of None \<Rightarrow> True | Some ok \<Rightarrow> \<not> truthy ok)"
    by (simp add: fixed_bot_def send_reply_def ascii_def)
  from failed_send_answers_500[OF m r c n g f] r n show ?thesis by simp
qed

section \<open>Properties of the token codec\<close>

declare decimal.simps [simp del]

lemma digit_unat: "d < 10 \<Longrightarrow> unat (of_nat (48 + d) :: 16 word) = 48 + d"
  by (simp add: unat_of_nat del: of_nat_add)

lemma undecimal_snoc: "undecimal (ds @ [d]) = 10 * undecimal ds + (unat d - 48)"
  by (simp add: undecimal_def)

lemma undecimal_decimal: "undecimal (decimal n) = n"
proof (induction n rule: decimal.induct)
  case (1 n)
  show ?case
  proof (cases "n < 10")
    case True
    then show ?thesis
      by (subst decimal.simps) (simp add: undecimal_def digit_unat del: of_nat_add)
  next
    case False
    have "unat (of_nat (48 + n mod 10) :: 16 word) = 48 + n mod 10"
      by (rule digit_unat) simp
    with False 1 show ?thesis
      by (subst decimal.simps) (simp add: undecimal_snoc del: of_nat_add)
  qed
qed

lemma decimal_digits: "c \<in> set (decimal n) \<Longrightarrow> 48 \<le> unat c \<and> unat c < 58"
proof (induction n rule: decimal.induct)
  case (1 n)
  have d: "unat (of_nat (48 + n mod 10) :: 16 word) = 48 + n mod 10"
    by (rule digit_unat) simp
  show ?case
  proof (cases "n < 10")
    case True
    with 1(2) have "c = of_nat (48 + n)" by (subst (asm) decimal.simps) simp
    with True digit_unat[of n] show ?thesis by simp
  next
    case False
    with 1(2) have "c \<in> set (decimal (n div 10)) \<or> c = of_nat (48 + n mod 10)"
      by (subst (asm) decimal.simps) auto
    with 1(1) False d show ?thesis by auto
  qed
qed

lemma decimal_nonempty: "decimal n \<noteq> []"
  by (subst decimal.simps) simp

lemma hd_decimal: "hd (decimal n) \<noteq> 0x2D"
proof
  assume h: "hd (decimal n) = 0x2D"
  have "hd (decimal n) \<in> set (decimal n)" using decimal_nonempty by simp
  from decimal_digits[OF this] h show False by simp
qed

lemma read_show_int: "read_int (show_int i) = i"
  by (simp add: read_int_def show_int_def undecimal_decimal decimal_nonempty hd_decimal)

lemma parse_show_int: "parse_int (show_int i) = Some i"
  by (simp add: parse_int_def read_show_int)

lemma parse_int_Some: "parse_int p = Some i \<Longrightarrow> p = show_int i"
  by (auto simp: parse_int_def Let_def split: if_splits)

lemma show_int_no_dot: "0x2E \<notin> set (show_int i)"
proof
  assume "0x2E \<in> set (show_int i)"
  then have "(0x2E :: 16 word) \<in> set (decimal (nat (- i))) \<or> (0x2E :: 16 word) \<in> set (decimal (nat i))"
    by (auto simp: show_int_def split: if_splits)
  then show False using decimal_digits[of "0x2E"] by auto
qed

lemma decode_encode: "decode mac key (encode mac key c) = Inr c"
proof -
  have n: "\<forall>x \<in> set (show_int c). x \<noteq> 0x2E" using show_int_no_dot[of c] by auto
  have t: "takeWhile (\<lambda>c. c \<noteq> 0x2E) (show_int c @ [0x2E] @ mac key (show_int c)) = show_int c"
    using n by (simp add: takeWhile_append2)
  have d: "dropWhile (\<lambda>c. c \<noteq> 0x2E) (show_int c @ [0x2E] @ mac key (show_int c)) =
      0x2E # mac key (show_int c)"
    using n by (simp add: dropWhile_append2)
  show ?thesis
    unfolding decode_def encode_def t d by (simp add: parse_show_int)
qed

lemma decode_Inr: assumes "decode mac key t = Inr c" shows "t = encode mac key c"
proof -
  let ?p = "takeWhile (\<lambda>c. c \<noteq> 0x2E) t" and ?r = "dropWhile (\<lambda>c. c \<noteq> 0x2E) t"
  from assms obtain dot tag where r: "?r = dot # tag" and p: "parse_int ?p = Some c"
    and m: "tag = mac key ?p"
    by (auto simp: decode_def Let_def split: list.splits option.splits if_splits)
  from r have "dot = 0x2E" using hd_dropWhile[of "\<lambda>c. c \<noteq> 0x2E" t] by auto
  moreover from p have "?p = show_int c" by (rule parse_int_Some)
  moreover have "t = ?p @ ?r" by simp
  ultimately show ?thesis using r m by (simp add: encode_def)
qed

text \<open>
  C1. For the codec modelled from the specification, with any digest function and key:
  decoding the token of a chat identifier gives the identifier back, a string is decoded
  to an identifier only if it is the token of that identifier under the key, and every
  other string is rejected with \<open>AuthError\<close>.
\<close>

theorem token_codec_round_trip:
  "decode mac key (encode mac key c) = Inr c \<and>
   (\<forall>t c'. decode mac key t = Inr c' \<longrightarrow> t = encode mac key c') \<and>
   (\<forall>t. (\<forall>c'. t \<noteq> encode mac key c') \<longrightarrow> decode mac key t = Inl AuthError)"
proof (intro conjI allI impI)
  show "decode mac key (encode mac key c) = Inr c" by (rule decode_encode)
next
  fix t c' assume "decode mac key t = Inr c'"
  then show "t = encode mac key c'" by (rule decode_Inr)
next
  fix t assume n: "\<forall>c'. t \<noteq> encode mac key c'"
  show "decode mac key t = Inl AuthError"
  proof (cases "decode mac key t")
    case (Inl e)
    then show ?thesis by (cases e) simp
  next
    case (Inr c')
    then have "t = encode mac key c'" by (rule decode_Inr)
    with n show ?thesis by blast
  qed
qed

theorem token_codec_round_trip_witness:
  "decode toy_mac (ascii ''k1'') (ascii ''-1001.1k-1001'') = Inr (-1001) \<and>
   ascii ''-1001.1k-1001'' = encode toy_mac (ascii ''k1'') (-1001)"
proof -
  have d: "decode toy_mac (ascii ''k1'') (ascii ''-1001.1k-1001'') = Inr (-1001)"
    by (simp add: decode_def parse_int_def read_int_def undecimal_def show_int_def decimal.simps
        toy_mac_def ascii_def)
  from token_codec_round_trip[of toy_mac "ascii ''k1''" 0] d show ?thesis by blast
qed

end
